theory Spec2Isabelle
  imports Complex_Main
begin

section \<open>The actuator-disc component of betz_limit.py\<close>

text \<open>
  The component \<^verbatim>\<open>ActuatorDisc\<close> of
  \<^verbatim>\<open>src/openmdao/test_suite/test_examples/betz_limit.py\<close> has two methods,
  \<^verbatim>\<open>compute(self, inputs, outputs)\<close> and
  \<^verbatim>\<open>compute_partials(self, inputs, J)\<close>. Both read the dictionary
  \<^verbatim>\<open>inputs\<close> and assign into a second dictionary they were handed.

  Python's floats are modelled as the reals, as the specification speaks of them; rounding
  is outside this development, and the range of a float enters only in the second
  embedding further down. A dictionary is a map from its keys to reals, a lookup of a
  missing key is the error \<open>KeyError\<close>, and an assignment \<^verbatim>\<open>d[k] = v\<close> is a
  map update. The three dictionaries that the two methods can reach form one record, which
  every method takes and returns, so that what a method leaves alone is a theorem and not
  a convention.
\<close>

subsection \<open>Data\<close>

type_synonym vec = "string \<rightharpoonup> real"

type_synonym jac = "string \<times> string \<rightharpoonup> real"

datatype error = KeyError string | KeyError2 string string | OverflowError

record state =
  inputs :: vec
  outputs :: vec
  J :: jac

definition bind_err :: "error + 'a \<Rightarrow> ('a \<Rightarrow> error + 'b) \<Rightarrow> error + 'b" where
  "bind_err m f = (case m of Inl e \<Rightarrow> Inl e | Inr v \<Rightarrow> f v)"

text \<open>\<^verbatim>\<open>d[k]\<close> read from a dictionary of scalars.\<close>

definition getitem :: "vec \<Rightarrow> string \<Rightarrow> error + real" where
  "getitem d k = (case d k of None \<Rightarrow> Inl (KeyError k) | Some v \<Rightarrow> Inr v)"

text \<open>\<^verbatim>\<open>J[out, wrt]\<close> read from the Jacobian.\<close>

definition get_partial :: "state \<Rightarrow> string \<Rightarrow> string \<Rightarrow> error + real" where
  "get_partial s out wrt =
     (case J s (out, wrt) of None \<Rightarrow> Inl (KeyError2 out wrt) | Some v \<Rightarrow> Inr v)"

text \<open>\<^verbatim>\<open>outputs[k] = v\<close> and \<^verbatim>\<open>J[out, wrt] = v\<close>.\<close>

definition set_output :: "state \<Rightarrow> string \<Rightarrow> real \<Rightarrow> state" where
  "set_output s k v = s\<lparr>outputs := (outputs s)(k \<mapsto> v)\<rparr>"

definition set_partial :: "state \<Rightarrow> string \<Rightarrow> string \<Rightarrow> real \<Rightarrow> state" where
  "set_partial s out wrt v = s\<lparr>J := (J s)((out, wrt) \<mapsto> v)\<rparr>"

subsection \<open>Forward evaluation\<close>

text \<open>
  \<^verbatim>\<open>ActuatorDisc.compute\<close>, lines 38 to 55. The four reads come first, in the order
  \<^verbatim>\<open>a\<close>, \<^verbatim>\<open>Vu\<close>, \<^verbatim>\<open>rho\<close>, \<^verbatim>\<open>Area\<close>; the six assignments follow in the
  order of the source.
\<close>

definition compute :: "state \<Rightarrow> error + state" where
  "compute s =
     bind_err (getitem (inputs s) ''a'') (\<lambda>a.
     bind_err (getitem (inputs s) ''Vu'') (\<lambda>Vu.
     bind_err (getitem (inputs s) ''rho'') (\<lambda>rho.
     bind_err (getitem (inputs s) ''Area'') (\<lambda>Area.
       let qA = (1 / 2) * rho * Area * Vu ^ 2;
           Vd = Vu * (1 - 2 * a);
           s = set_output s ''Vd'' Vd;
           s = set_output s ''Vr'' ((1 / 2) * (Vu + Vd));
           Ct = 4 * a * (1 - a);
           s = set_output s ''Ct'' Ct;
           s = set_output s ''thrust'' (Ct * qA);
           Cp = Ct * (1 - a);
           s = set_output s ''Cp'' Cp;
           s = set_output s ''power'' (Cp * qA * Vu)
       in Inr s))))"

subsection \<open>Partial derivatives\<close>

text \<open>
  \<^verbatim>\<open>ActuatorDisc.compute_partials\<close>, lines 57 to 88. The reads are in the order
  \<^verbatim>\<open>a\<close>, \<^verbatim>\<open>Vu\<close>, \<^verbatim>\<open>Area\<close>, \<^verbatim>\<open>rho\<close>. The entry for thrust and
  \<^verbatim>\<open>a\<close> reads back the entry for \<^verbatim>\<open>Ct\<close> and \<^verbatim>\<open>a\<close> that was just
  assigned.
\<close>

definition compute_partials :: "state \<Rightarrow> error + state" where
  "compute_partials s =
     bind_err (getitem (inputs s) ''a'') (\<lambda>a.
     bind_err (getitem (inputs s) ''Vu'') (\<lambda>Vu.
     bind_err (getitem (inputs s) ''Area'') (\<lambda>Area.
     bind_err (getitem (inputs s) ''rho'') (\<lambda>rho.
       let a_times_area = a * Area;
           one_minus_a = 1 - a;
           a_area_rho_vu = a_times_area * rho * Vu;
           s = set_partial s ''Vr'' ''a'' (- Vu);
           s = set_partial s ''Vr'' ''Vu'' one_minus_a;
           s = set_partial s ''Vd'' ''a'' (- 2 * Vu);
           s = set_partial s ''Ct'' ''a'' (4 - 8 * a)
       in
       bind_err (get_partial s ''Ct'' ''a'') (\<lambda>J_Ct_a.
       let s = set_partial s ''thrust'' ''a'' ((1 / 2) * rho * Vu ^ 2 * Area * J_Ct_a);
           s = set_partial s ''thrust'' ''Area'' (2 * Vu ^ 2 * a * rho * one_minus_a);
           s = set_partial s ''thrust'' ''rho'' (2 * a_times_area * Vu ^ 2 * one_minus_a);
           s = set_partial s ''thrust'' ''Vu'' (4 * a_area_rho_vu * one_minus_a);
           s = set_partial s ''Cp'' ''a'' (4 * a * (2 * a - 2) + 4 * one_minus_a ^ 2);
           s = set_partial s ''power'' ''a''
                 (2 * Area * Vu ^ 3 * a * rho * (2 * a - 2)
                  + 2 * Area * Vu ^ 3 * rho * one_minus_a ^ 2);
           s = set_partial s ''power'' ''Area'' (2 * Vu ^ 3 * a * rho * one_minus_a ^ 2);
           s = set_partial s ''power'' ''rho'' (2 * a_times_area * Vu ^ 3 * one_minus_a ^ 2);
           s = set_partial s ''power'' ''Vu'' (6 * Area * Vu ^ 2 * a * rho * one_minus_a ^ 2)
       in Inr s)))))"

subsection \<open>The model the test builds\<close>

text \<open>
  Lines 94 to 97: the independent variables and their initial values.
\<close>

definition indeps :: vec where
  "indeps = [''a'' \<mapsto> 1 / 2, ''Area'' \<mapsto> 10, ''rho'' \<mapsto> 1225 / 1000, ''Vu'' \<mapsto> 10]"

text \<open>Lines 26 to 34: the six outputs that \<^verbatim>\<open>setup\<close> declares, each starting at zero.\<close>

definition setup_outputs :: vec where
  "setup_outputs =
     [''Vr'' \<mapsto> 0, ''Vd'' \<mapsto> 0, ''Ct'' \<mapsto> 0, ''thrust'' \<mapsto> 0, ''Cp'' \<mapsto> 0, ''power'' \<mapsto> 0]"

text \<open>The state before the first evaluation: initial inputs, zeroed outputs, no partials.\<close>

definition initial :: state where
  "initial = \<lparr>inputs = indeps, outputs = setup_outputs, J = Map.empty\<rparr>"

text \<open>
  Lines 106 and 107: the design variables, each with its lower and upper bound.
\<close>

definition design_vars :: "(string \<times> real \<times> real) list" where
  "design_vars = [(''a'', 0, 1), (''Area'', 0, 1)]"

text \<open>Whether a value lies within the bounds declared for a design variable.\<close>

definition within_bounds :: "string \<Rightarrow> real \<Rightarrow> bool" where
  "within_bounds name x =
     (case map_of design_vars name of None \<Rightarrow> True | Some (lo, hi) \<Rightarrow> lo \<le> x \<and> x \<le> hi)"

subsection \<open>Names of the entries written\<close>

text \<open>The keys that the six assignments of \<^verbatim>\<open>compute\<close> use.\<close>

definition output_names :: "string list" where
  "output_names = [''Vd'', ''Vr'', ''Ct'', ''thrust'', ''Cp'', ''power'']"

text \<open>The keys that the thirteen assignments of \<^verbatim>\<open>compute_partials\<close> use.\<close>

definition partial_names :: "(string \<times> string) list" where
  "partial_names =
     [(''Vr'', ''a''), (''Vr'', ''Vu''), (''Vd'', ''a''), (''Ct'', ''a''),
      (''thrust'', ''a''), (''thrust'', ''Area''), (''thrust'', ''rho''), (''thrust'', ''Vu''),
      (''Cp'', ''a''),
      (''power'', ''a''), (''power'', ''Area''), (''power'', ''rho''), (''power'', ''Vu'')]"

text \<open>
  A number \<open>D\<close> is the partial derivative of output \<open>out\<close> with respect to input
  \<open>wrt\<close> at the inputs of \<open>s\<close>: there is a real function \<open>f\<close> that forward evaluation
  computes into slot \<open>out\<close> when only input \<open>wrt\<close> varies, and \<open>f\<close> has derivative
  \<open>D\<close> at the present value of that input.
\<close>

definition is_partial :: "state \<Rightarrow> string \<Rightarrow> string \<Rightarrow> real \<Rightarrow> bool" where
  "is_partial s out wrt D \<longleftrightarrow>
     (\<exists>f x0. inputs s wrt = Some x0
        \<and> (\<forall>x. \<exists>s'. compute (s\<lparr>inputs := (inputs s)(wrt \<mapsto> x)\<rparr>) = Inr s'
                    \<and> outputs s' out = Some (f x))
        \<and> (f has_real_derivative D) (at x0))"

section \<open>The range of a float\<close>

text \<open>
  The reals cannot overflow; a Python float can. For the question whether an evaluation
  can fail, the two methods are embedded a second time, over values that are a finite
  real, an infinity with its sign (\<open>True\<close> for the positive one), or not-a-number.
  Rounding is still left out: an arithmetic result within the range of a double is taken
  exactly. What is kept is what happens outside that range, as Python's float operations
  have it: \<^verbatim>\<open>+\<close>, \<^verbatim>\<open>-\<close> and \<^verbatim>\<open>*\<close> return an infinity (or
  not-a-number) and never raise, while \<^verbatim>\<open>**\<close> raises \<^verbatim>\<open>OverflowError\<close>
  when its result is out of range.
\<close>

datatype pyfloat = Fin real | Inf bool | NaN

text \<open>The largest double, \<open>(2 - 2\<^sup>-\<^sup>5\<^sup>2) 2\<^sup>1\<^sup>0\<^sup>2\<^sup>3\<close>.\<close>

definition max_float :: real where
  "max_float = 2 ^ 1024 - 2 ^ 971"

text \<open>The float for the exact result \<open>v\<close> of an operation on two finite floats.\<close>

definition rnd :: "real \<Rightarrow> pyfloat" where
  "rnd v = (if \<bar>v\<bar> \<le> max_float then Fin v else Inf (0 < v))"

fun fneg :: "pyfloat \<Rightarrow> pyfloat" where
  "fneg (Fin x) = Fin (- x)"
| "fneg (Inf s) = Inf (\<not> s)"
| "fneg NaN = NaN"

fun fadd :: "pyfloat \<Rightarrow> pyfloat \<Rightarrow> pyfloat" where
  "fadd (Fin x) (Fin y) = rnd (x + y)"
| "fadd (Fin x) (Inf t) = Inf t"
| "fadd (Inf s) (Fin y) = Inf s"
| "fadd (Inf s) (Inf t) = (if s = t then Inf s else NaN)"
| "fadd NaN y = NaN"
| "fadd x NaN = NaN"

definition fsub :: "pyfloat \<Rightarrow> pyfloat \<Rightarrow> pyfloat" where
  "fsub x y = fadd x (fneg y)"

fun fmul :: "pyfloat \<Rightarrow> pyfloat \<Rightarrow> pyfloat" where
  "fmul (Fin x) (Fin y) = rnd (x * y)"
| "fmul (Fin x) (Inf t) = (if x = 0 then NaN else Inf ((0 < x) = t))"
| "fmul (Inf s) (Fin y) = (if y = 0 then NaN else Inf (s = (0 < y)))"
| "fmul (Inf s) (Inf t) = Inf (s = t)"
| "fmul NaN y = NaN"
| "fmul x NaN = NaN"

text \<open>
  \<^verbatim>\<open>x ** n\<close> for a float \<open>x\<close> and an integer literal \<open>n\<close> (2 or 3 in the source).
\<close>

fun fpow :: "pyfloat \<Rightarrow> nat \<Rightarrow> error + pyfloat" where
  "fpow (Fin x) n = (if \<bar>x ^ n\<bar> \<le> max_float then Inr (Fin (x ^ n)) else Inl OverflowError)"
| "fpow (Inf s) n = Inr (if n = 0 then Fin 1 else Inf (s \<or> even n))"
| "fpow NaN n = Inr (if n = 0 then Fin 1 else NaN)"

type_synonym fvec = "string \<rightharpoonup> pyfloat"

type_synonym fjac = "string \<times> string \<rightharpoonup> pyfloat"

record fstate =
  finputs :: fvec
  foutputs :: fvec
  fJ :: fjac

text \<open>
  An exception can now be raised between two assignments, so a failed evaluation returns
  the error together with the state it leaves behind.
\<close>

definition raising ::
  "fstate \<Rightarrow> error + 'a \<Rightarrow> ('a \<Rightarrow> error \<times> fstate + fstate) \<Rightarrow> error \<times> fstate + fstate" where
  "raising s m f = (case m of Inl e \<Rightarrow> Inl (e, s) | Inr v \<Rightarrow> f v)"

definition getitem_float :: "fvec \<Rightarrow> string \<Rightarrow> error + pyfloat" where
  "getitem_float d k = (case d k of None \<Rightarrow> Inl (KeyError k) | Some v \<Rightarrow> Inr v)"

definition get_partial_float :: "fstate \<Rightarrow> string \<Rightarrow> string \<Rightarrow> error + pyfloat" where
  "get_partial_float s out wrt =
     (case fJ s (out, wrt) of None \<Rightarrow> Inl (KeyError2 out wrt) | Some v \<Rightarrow> Inr v)"

definition set_output_float :: "fstate \<Rightarrow> string \<Rightarrow> pyfloat \<Rightarrow> fstate" where
  "set_output_float s k v = s\<lparr>foutputs := (foutputs s)(k \<mapsto> v)\<rparr>"

definition set_partial_float :: "fstate \<Rightarrow> string \<Rightarrow> string \<Rightarrow> pyfloat \<Rightarrow> fstate" where
  "set_partial_float s out wrt v = s\<lparr>fJ := (fJ s)((out, wrt) \<mapsto> v)\<rparr>"

text \<open>
  \<^verbatim>\<open>ActuatorDisc.compute\<close> again, lines 38 to 55. In line 46 Python evaluates
  \<^verbatim>\<open>.5 * inputs['rho'] * inputs['Area']\<close> first and \<^verbatim>\<open>Vu ** 2\<close> after it; that
  power is the one operation of the method that can raise besides the four reads, and it
  comes before the first assignment.
\<close>

definition compute_float :: "fstate \<Rightarrow> error \<times> fstate + fstate" where
  "compute_float s =
     raising s (getitem_float (finputs s) ''a'') (\<lambda>a.
     raising s (getitem_float (finputs s) ''Vu'') (\<lambda>Vu.
     raising s (getitem_float (finputs s) ''rho'') (\<lambda>rho.
     raising s (getitem_float (finputs s) ''Area'') (\<lambda>Area.
     raising s (fpow Vu 2) (\<lambda>Vu2.
       let qA = fmul (fmul (fmul (Fin (1 / 2)) rho) Area) Vu2;
           Vd = fmul Vu (fsub (Fin 1) (fmul (Fin 2) a));
           s = set_output_float s ''Vd'' Vd;
           s = set_output_float s ''Vr'' (fmul (Fin (1 / 2)) (fadd Vu Vd));
           Ct = fmul (fmul (Fin 4) a) (fsub (Fin 1) a);
           s = set_output_float s ''Ct'' Ct;
           s = set_output_float s ''thrust'' (fmul Ct qA);
           Cp = fmul Ct (fsub (Fin 1) a);
           s = set_output_float s ''Cp'' Cp;
           s = set_output_float s ''power'' (fmul (fmul Cp qA) Vu)
       in Inr s)))))"

text \<open>
  \<^verbatim>\<open>ActuatorDisc.compute_partials\<close> again, lines 57 to 88. Every \<^verbatim>\<open>**\<close> is a
  step that can raise, taken in the order in which Python evaluates the right-hand side it
  stands in; the assignments made before it stay in the Jacobian.
\<close>

definition compute_partials_float :: "fstate \<Rightarrow> error \<times> fstate + fstate" where
  "compute_partials_float s =
     raising s (getitem_float (finputs s) ''a'') (\<lambda>a.
     raising s (getitem_float (finputs s) ''Vu'') (\<lambda>Vu.
     raising s (getitem_float (finputs s) ''Area'') (\<lambda>Area.
     raising s (getitem_float (finputs s) ''rho'') (\<lambda>rho.
       let a_times_area = fmul a Area;
           one_minus_a = fsub (Fin 1) a;
           a_area_rho_vu = fmul (fmul a_times_area rho) Vu;
           s = set_partial_float s ''Vr'' ''a'' (fneg Vu);
           s = set_partial_float s ''Vr'' ''Vu'' one_minus_a;
           s = set_partial_float s ''Vd'' ''a'' (fmul (Fin (- 2)) Vu);
           s = set_partial_float s ''Ct'' ''a'' (fsub (Fin 4) (fmul (Fin 8) a))
       in
       raising s (fpow Vu 2) (\<lambda>p.
       raising s (get_partial_float s ''Ct'' ''a'') (\<lambda>J_Ct_a.
       let s = set_partial_float s ''thrust'' ''a''
                 (fmul (fmul (fmul (fmul (Fin (1 / 2)) rho) p) Area) J_Ct_a)
       in
       raising s (fpow Vu 2) (\<lambda>p.
       let s = set_partial_float s ''thrust'' ''Area''
                 (fmul (fmul (fmul (fmul (Fin 2) p) a) rho) one_minus_a)
       in
       raising s (fpow Vu 2) (\<lambda>p.
       let s = set_partial_float s ''thrust'' ''rho''
                 (fmul (fmul (fmul (Fin 2) a_times_area) p) one_minus_a);
           s = set_partial_float s ''thrust'' ''Vu''
                 (fmul (fmul (Fin 4) a_area_rho_vu) one_minus_a)
       in
       raising s (fpow one_minus_a 2) (\<lambda>q.
       let s = set_partial_float s ''Cp'' ''a''
                 (fadd (fmul (fmul (Fin 4) a) (fsub (fmul (Fin 2) a) (Fin 2)))
                       (fmul (Fin 4) q))
       in
       raising s (fpow Vu 3) (\<lambda>p1.
       raising s (fpow Vu 3) (\<lambda>p2.
       raising s (fpow one_minus_a 2) (\<lambda>q.
       let s = set_partial_float s ''power'' ''a''
                 (fadd (fmul (fmul (fmul (fmul (fmul (Fin 2) Area) p1) a) rho)
                             (fsub (fmul (Fin 2) a) (Fin 2)))
                       (fmul (fmul (fmul (fmul (Fin 2) Area) p2) rho) q))
       in
       raising s (fpow Vu 3) (\<lambda>p.
       raising s (fpow one_minus_a 2) (\<lambda>q.
       let s = set_partial_float s ''power'' ''Area''
                 (fmul (fmul (fmul (fmul (Fin 2) p) a) rho) q)
       in
       raising s (fpow Vu 3) (\<lambda>p.
       raising s (fpow one_minus_a 2) (\<lambda>q.
       let s = set_partial_float s ''power'' ''rho''
                 (fmul (fmul (fmul (Fin 2) a_times_area) p) q)
       in
       raising s (fpow Vu 2) (\<lambda>p.
       raising s (fpow one_minus_a 2) (\<lambda>q.
       let s = set_partial_float s ''power'' ''Vu''
                 (fmul (fmul (fmul (fmul (fmul (Fin 6) Area) p) a) rho) q)
       in Inr s))))))))))))))))))"

text \<open>The test's model as floats: lines 94 to 97 and lines 26 to 34.\<close>

definition initial_float :: fstate where
  "initial_float =
     \<lparr>finputs = map_option Fin \<circ> indeps, foutputs = map_option Fin \<circ> setup_outputs,
      fJ = Map.empty\<rparr>"

text \<open>A float that is a real number, neither an infinity nor not-a-number.\<close>

fun is_finite :: "pyfloat \<Rightarrow> bool" where
  "is_finite (Fin x) = True"
| "is_finite (Inf s) = False"
| "is_finite NaN = False"

text \<open>Bounds by powers of two, for the range proofs.\<close>

definition bounded :: "nat \<Rightarrow> real \<Rightarrow> bool" where
  "bounded k x \<longleftrightarrow> \<bar>x\<bar> \<le> 2 ^ k"

definition val :: "pyfloat \<Rightarrow> real \<Rightarrow> nat \<Rightarrow> bool" where
  "val X x k \<longleftrightarrow> X = Fin x \<and> bounded k x \<and> k \<le> 1023"

section \<open>Closed forms of the two methods\<close>

lemma compute_Inr:
  assumes "inputs s ''a'' = Some a" and "inputs s ''Area'' = Some Area"
    and "inputs s ''rho'' = Some rho" and "inputs s ''Vu'' = Some Vu"
  shows "compute s = Inr (s\<lparr>outputs := (outputs s)
           (''Vd'' \<mapsto> Vu * (1 - 2 * a),
            ''Vr'' \<mapsto> (1 / 2) * (Vu + Vu * (1 - 2 * a)),
            ''Ct'' \<mapsto> 4 * a * (1 - a),
            ''thrust'' \<mapsto> 4 * a * (1 - a) * ((1 / 2) * rho * Area * Vu ^ 2),
            ''Cp'' \<mapsto> 4 * a * (1 - a) * (1 - a),
            ''power'' \<mapsto> 4 * a * (1 - a) * (1 - a) * ((1 / 2) * rho * Area * Vu ^ 2) * Vu)\<rparr>)"
  using assms
  by (simp add: compute_def bind_err_def getitem_def set_output_def Let_def mult_ac)

lemma compute_partials_Inr:
  assumes "inputs s ''a'' = Some a" and "inputs s ''Area'' = Some Area"
    and "inputs s ''rho'' = Some rho" and "inputs s ''Vu'' = Some Vu"
  shows "compute_partials s = Inr (s\<lparr>J := (J s)
           ((''Vr'', ''a'') \<mapsto> - Vu,
            (''Vr'', ''Vu'') \<mapsto> 1 - a,
            (''Vd'', ''a'') \<mapsto> - 2 * Vu,
            (''Ct'', ''a'') \<mapsto> 4 - 8 * a,
            (''thrust'', ''a'') \<mapsto> (1 / 2) * rho * Vu ^ 2 * Area * (4 - 8 * a),
            (''thrust'', ''Area'') \<mapsto> 2 * Vu ^ 2 * a * rho * (1 - a),
            (''thrust'', ''rho'') \<mapsto> 2 * (a * Area) * Vu ^ 2 * (1 - a),
            (''thrust'', ''Vu'') \<mapsto> 4 * (a * Area * rho * Vu) * (1 - a),
            (''Cp'', ''a'') \<mapsto> 4 * a * (2 * a - 2) + 4 * (1 - a) ^ 2,
            (''power'', ''a'') \<mapsto> 2 * Area * Vu ^ 3 * a * rho * (2 * a - 2)
                                   + 2 * Area * Vu ^ 3 * rho * (1 - a) ^ 2,
            (''power'', ''Area'') \<mapsto> 2 * Vu ^ 3 * a * rho * (1 - a) ^ 2,
            (''power'', ''rho'') \<mapsto> 2 * (a * Area) * Vu ^ 3 * (1 - a) ^ 2,
            (''power'', ''Vu'') \<mapsto> 6 * Area * Vu ^ 2 * a * rho * (1 - a) ^ 2)\<rparr>)"
  using assms
  by (simp add: compute_partials_def bind_err_def getitem_def set_partial_def get_partial_def
      Let_def mult_ac)

subsection \<open>When an evaluation succeeds, and with which error it fails\<close>

lemma compute_InrD:
  assumes "compute s = Inr s'"
  shows "\<exists>a Area rho Vu. inputs s ''a'' = Some a \<and> inputs s ''Area'' = Some Area
           \<and> inputs s ''rho'' = Some rho \<and> inputs s ''Vu'' = Some Vu"
  using assms
  by (auto simp add: compute_def bind_err_def getitem_def split: option.splits)

lemma compute_partials_InrD:
  assumes "compute_partials s = Inr s'"
  shows "\<exists>a Area rho Vu. inputs s ''a'' = Some a \<and> inputs s ''Area'' = Some Area
           \<and> inputs s ''rho'' = Some rho \<and> inputs s ''Vu'' = Some Vu"
  using assms
  by (auto simp add: compute_partials_def bind_err_def getitem_def split: option.splits)

lemma compute_Inl:
  assumes "compute s = Inl e"
  shows "e = (if inputs s ''a'' = None then KeyError ''a''
              else if inputs s ''Vu'' = None then KeyError ''Vu''
              else if inputs s ''rho'' = None then KeyError ''rho''
              else KeyError ''Area'')
         \<and> (\<exists>k \<in> {''a'', ''Area'', ''rho'', ''Vu''}. inputs s k = None)"
  using assms
  by (auto simp add: compute_def bind_err_def getitem_def Let_def split: option.splits)

lemma compute_partials_Inl:
  assumes "compute_partials s = Inl e"
  shows "e = (if inputs s ''a'' = None then KeyError ''a''
              else if inputs s ''Vu'' = None then KeyError ''Vu''
              else if inputs s ''Area'' = None then KeyError ''Area''
              else KeyError ''rho'')
         \<and> (\<exists>k \<in> {''a'', ''Area'', ''rho'', ''Vu''}. inputs s k = None)"
  using assms
  by (auto simp add: compute_partials_def bind_err_def getitem_def get_partial_def
      set_partial_def Let_def split: option.splits)

section \<open>Derivatives of the forward evaluation\<close>

text \<open>
  Varying one input and keeping the other three: what forward evaluation then writes, as a
  function of the varied value \<open>x\<close>.
\<close>

lemma vary_a:
  assumes "inputs s ''a'' = Some a" and "inputs s ''Area'' = Some Area"
    and "inputs s ''rho'' = Some rho" and "inputs s ''Vu'' = Some Vu"
  shows "\<exists>s'. compute (s\<lparr>inputs := (inputs s)(''a'' \<mapsto> x)\<rparr>) = Inr s'
      \<and> outputs s' ''Vd'' = Some (Vu * (1 - 2 * x))
      \<and> outputs s' ''Vr'' = Some ((1 / 2) * (Vu + Vu * (1 - 2 * x)))
      \<and> outputs s' ''Ct'' = Some (4 * x * (1 - x))
      \<and> outputs s' ''thrust'' = Some (4 * x * (1 - x) * ((1 / 2) * rho * Area * Vu ^ 2))
      \<and> outputs s' ''Cp'' = Some (4 * x * (1 - x) * (1 - x))
      \<and> outputs s' ''power'' = Some (4 * x * (1 - x) * (1 - x) * ((1 / 2) * rho * Area * Vu ^ 2) * Vu)"
  using assms
  by (simp add: compute_Inr [of "s\<lparr>inputs := (inputs s)(''a'' \<mapsto> x)\<rparr>" x Area rho Vu])

lemma vary_Area:
  assumes "inputs s ''a'' = Some a" and "inputs s ''Area'' = Some Area"
    and "inputs s ''rho'' = Some rho" and "inputs s ''Vu'' = Some Vu"
  shows "\<exists>s'. compute (s\<lparr>inputs := (inputs s)(''Area'' \<mapsto> x)\<rparr>) = Inr s'
      \<and> outputs s' ''Vd'' = Some (Vu * (1 - 2 * a))
      \<and> outputs s' ''Vr'' = Some ((1 / 2) * (Vu + Vu * (1 - 2 * a)))
      \<and> outputs s' ''Ct'' = Some (4 * a * (1 - a))
      \<and> outputs s' ''thrust'' = Some (4 * a * (1 - a) * ((1 / 2) * rho * x * Vu ^ 2))
      \<and> outputs s' ''Cp'' = Some (4 * a * (1 - a) * (1 - a))
      \<and> outputs s' ''power'' = Some (4 * a * (1 - a) * (1 - a) * ((1 / 2) * rho * x * Vu ^ 2) * Vu)"
  using assms
  by (simp add: compute_Inr [of "s\<lparr>inputs := (inputs s)(''Area'' \<mapsto> x)\<rparr>" a x rho Vu])

lemma vary_rho:
  assumes "inputs s ''a'' = Some a" and "inputs s ''Area'' = Some Area"
    and "inputs s ''rho'' = Some rho" and "inputs s ''Vu'' = Some Vu"
  shows "\<exists>s'. compute (s\<lparr>inputs := (inputs s)(''rho'' \<mapsto> x)\<rparr>) = Inr s'
      \<and> outputs s' ''Vd'' = Some (Vu * (1 - 2 * a))
      \<and> outputs s' ''Vr'' = Some ((1 / 2) * (Vu + Vu * (1 - 2 * a)))
      \<and> outputs s' ''Ct'' = Some (4 * a * (1 - a))
      \<and> outputs s' ''thrust'' = Some (4 * a * (1 - a) * ((1 / 2) * x * Area * Vu ^ 2))
      \<and> outputs s' ''Cp'' = Some (4 * a * (1 - a) * (1 - a))
      \<and> outputs s' ''power'' = Some (4 * a * (1 - a) * (1 - a) * ((1 / 2) * x * Area * Vu ^ 2) * Vu)"
  using assms
  by (simp add: compute_Inr [of "s\<lparr>inputs := (inputs s)(''rho'' \<mapsto> x)\<rparr>" a Area x Vu])

lemma vary_Vu:
  assumes "inputs s ''a'' = Some a" and "inputs s ''Area'' = Some Area"
    and "inputs s ''rho'' = Some rho" and "inputs s ''Vu'' = Some Vu"
  shows "\<exists>s'. compute (s\<lparr>inputs := (inputs s)(''Vu'' \<mapsto> x)\<rparr>) = Inr s'
      \<and> outputs s' ''Vd'' = Some (x * (1 - 2 * a))
      \<and> outputs s' ''Vr'' = Some ((1 / 2) * (x + x * (1 - 2 * a)))
      \<and> outputs s' ''Ct'' = Some (4 * a * (1 - a))
      \<and> outputs s' ''thrust'' = Some (4 * a * (1 - a) * ((1 / 2) * rho * Area * x ^ 2))
      \<and> outputs s' ''Cp'' = Some (4 * a * (1 - a) * (1 - a))
      \<and> outputs s' ''power'' = Some (4 * a * (1 - a) * (1 - a) * ((1 / 2) * rho * Area * x ^ 2) * x)"
  using assms
  by (simp add: compute_Inr [of "s\<lparr>inputs := (inputs s)(''Vu'' \<mapsto> x)\<rparr>" a Area rho x])

text \<open>The derivatives of those fourteen functions of one real variable.\<close>

lemma deriv_Vr_a: "((\<lambda>x. (1 / 2) * (Vu + Vu * (1 - 2 * x))) has_real_derivative - Vu) (at a)"
  by (auto intro!: derivative_eq_intros)

lemma deriv_Vr_Vu: "((\<lambda>x. (1 / 2) * (x + x * (1 - 2 * a))) has_real_derivative 1 - a) (at Vu)"
  by (auto intro!: derivative_eq_intros)

lemma deriv_Vd_a: "((\<lambda>x. Vu * (1 - 2 * x)) has_real_derivative - 2 * Vu) (at a)"
  by (auto intro!: derivative_eq_intros)

lemma deriv_Ct_a: "((\<lambda>x. 4 * x * (1 - x)) has_real_derivative 4 - 8 * a) (at a)"
  by (auto intro!: derivative_eq_intros)

lemma deriv_thrust_a: "((\<lambda>x. 4 * x * (1 - x) * ((1 / 2) * rho * Area * Vu ^ 2)) has_real_derivative
    (1 / 2) * rho * Vu ^ 2 * Area * (4 - 8 * a)) (at a)"
  by (auto intro!: derivative_eq_intros simp: algebra_simps)

lemma deriv_thrust_Area: "((\<lambda>x. 4 * a * (1 - a) * ((1 / 2) * rho * x * Vu ^ 2)) has_real_derivative
    2 * Vu ^ 2 * a * rho * (1 - a)) (at Area)"
  by (auto intro!: derivative_eq_intros simp: algebra_simps)

lemma deriv_thrust_rho: "((\<lambda>x. 4 * a * (1 - a) * ((1 / 2) * x * Area * Vu ^ 2)) has_real_derivative
    2 * (a * Area) * Vu ^ 2 * (1 - a)) (at rho)"
  by (auto intro!: derivative_eq_intros simp: algebra_simps)

lemma deriv_thrust_Vu: "((\<lambda>x. 4 * a * (1 - a) * ((1 / 2) * rho * Area * x ^ 2)) has_real_derivative
    4 * (a * Area * rho * Vu) * (1 - a)) (at Vu)"
  by (auto intro!: derivative_eq_intros simp: algebra_simps)

lemma deriv_Cp_a: "((\<lambda>x. 4 * x * (1 - x) * (1 - x)) has_real_derivative
    4 * a * (2 * a - 2) + 4 * (1 - a) ^ 2) (at a)"
  by (auto intro!: derivative_eq_intros simp: algebra_simps power2_eq_square)

lemma deriv_power_a: "((\<lambda>x. 4 * x * (1 - x) * (1 - x) * ((1 / 2) * rho * Area * Vu ^ 2) * Vu) has_real_derivative
    2 * Area * Vu ^ 3 * a * rho * (2 * a - 2) + 2 * Area * Vu ^ 3 * rho * (1 - a) ^ 2) (at a)"
  by (auto intro!: derivative_eq_intros simp: algebra_simps power2_eq_square power3_eq_cube)

lemma deriv_power_Area: "((\<lambda>x. 4 * a * (1 - a) * (1 - a) * ((1 / 2) * rho * x * Vu ^ 2) * Vu) has_real_derivative
    2 * Vu ^ 3 * a * rho * (1 - a) ^ 2) (at Area)"
  by (auto intro!: derivative_eq_intros simp: algebra_simps power2_eq_square power3_eq_cube)

lemma deriv_power_rho: "((\<lambda>x. 4 * a * (1 - a) * (1 - a) * ((1 / 2) * x * Area * Vu ^ 2) * Vu) has_real_derivative
    2 * (a * Area) * Vu ^ 3 * (1 - a) ^ 2) (at rho)"
  by (auto intro!: derivative_eq_intros simp: algebra_simps power2_eq_square power3_eq_cube)

lemma deriv_power_Vu: "((\<lambda>x. 4 * a * (1 - a) * (1 - a) * ((1 / 2) * rho * Area * x ^ 2) * x) has_real_derivative
    6 * Area * Vu ^ 2 * a * rho * (1 - a) ^ 2) (at Vu)"
  by (auto intro!: derivative_eq_intros simp: algebra_simps power2_eq_square power3_eq_cube)

lemma deriv_Vd_Vu: "((\<lambda>x. x * (1 - 2 * a)) has_real_derivative 1 - 2 * a) (at Vu)"
  by (auto intro!: derivative_eq_intros)

lemma is_partialI:
  assumes "inputs s wrt = Some x0"
    and "\<And>x. \<exists>s'. compute (s\<lparr>inputs := (inputs s)(wrt \<mapsto> x)\<rparr>) = Inr s'
                  \<and> outputs s' out = Some (f x)"
    and "(f has_real_derivative D) (at x0)"
  shows "is_partial s out wrt D"
  unfolding is_partial_def using assms by blast

lemma is_partial_unique:
  assumes "is_partial s out wrt D" and "is_partial s out wrt D'"
  shows "D = D'"
proof -
  from assms(1) obtain f x0 where x0: "inputs s wrt = Some x0"
    and f: "\<And>x. \<exists>s'. compute (s\<lparr>inputs := (inputs s)(wrt \<mapsto> x)\<rparr>) = Inr s'
                  \<and> outputs s' out = Some (f x)"
    and df: "(f has_real_derivative D) (at x0)"
    unfolding is_partial_def by blast
  from assms(2) obtain g x1 where x1: "inputs s wrt = Some x1"
    and g: "\<And>x. \<exists>s'. compute (s\<lparr>inputs := (inputs s)(wrt \<mapsto> x)\<rparr>) = Inr s'
                  \<and> outputs s' out = Some (g x)"
    and dg: "(g has_real_derivative D') (at x1)"
    unfolding is_partial_def by blast
  have "f x = g x" for x using f [of x] g [of x] by auto
  then have "f = g" by (rule ext)
  moreover have "x0 = x1" using x0 x1 by simp
  ultimately show ?thesis using df dg by (auto dest: DERIV_unique)
qed

lemma partial_Vr_a:
  assumes "inputs s ''a'' = Some a" and "inputs s ''Area'' = Some Area"
    and "inputs s ''rho'' = Some rho" and "inputs s ''Vu'' = Some Vu"
  shows "is_partial s ''Vr'' ''a'' (- Vu)"
  using assms vary_a [OF assms] by (intro is_partialI [OF _ _ deriv_Vr_a]) auto

lemma partial_Vr_Vu:
  assumes "inputs s ''a'' = Some a" and "inputs s ''Area'' = Some Area"
    and "inputs s ''rho'' = Some rho" and "inputs s ''Vu'' = Some Vu"
  shows "is_partial s ''Vr'' ''Vu'' (1 - a)"
  using assms vary_Vu [OF assms] by (intro is_partialI [OF _ _ deriv_Vr_Vu]) auto

lemma partial_Vd_a:
  assumes "inputs s ''a'' = Some a" and "inputs s ''Area'' = Some Area"
    and "inputs s ''rho'' = Some rho" and "inputs s ''Vu'' = Some Vu"
  shows "is_partial s ''Vd'' ''a'' (- 2 * Vu)"
  using assms vary_a [OF assms] by (intro is_partialI [OF _ _ deriv_Vd_a]) auto

lemma partial_Ct_a:
  assumes "inputs s ''a'' = Some a" and "inputs s ''Area'' = Some Area"
    and "inputs s ''rho'' = Some rho" and "inputs s ''Vu'' = Some Vu"
  shows "is_partial s ''Ct'' ''a'' (4 - 8 * a)"
  using assms vary_a [OF assms] by (intro is_partialI [OF _ _ deriv_Ct_a]) auto

lemma partial_thrust_a:
  assumes "inputs s ''a'' = Some a" and "inputs s ''Area'' = Some Area"
    and "inputs s ''rho'' = Some rho" and "inputs s ''Vu'' = Some Vu"
  shows "is_partial s ''thrust'' ''a'' ((1 / 2) * rho * Vu ^ 2 * Area * (4 - 8 * a))"
  using assms vary_a [OF assms] by (intro is_partialI [OF _ _ deriv_thrust_a]) auto

lemma partial_thrust_Area:
  assumes "inputs s ''a'' = Some a" and "inputs s ''Area'' = Some Area"
    and "inputs s ''rho'' = Some rho" and "inputs s ''Vu'' = Some Vu"
  shows "is_partial s ''thrust'' ''Area'' (2 * Vu ^ 2 * a * rho * (1 - a))"
  using assms vary_Area [OF assms] by (intro is_partialI [OF _ _ deriv_thrust_Area]) auto

lemma partial_thrust_rho:
  assumes "inputs s ''a'' = Some a" and "inputs s ''Area'' = Some Area"
    and "inputs s ''rho'' = Some rho" and "inputs s ''Vu'' = Some Vu"
  shows "is_partial s ''thrust'' ''rho'' (2 * (a * Area) * Vu ^ 2 * (1 - a))"
  using assms vary_rho [OF assms] by (intro is_partialI [OF _ _ deriv_thrust_rho]) auto

lemma partial_thrust_Vu:
  assumes "inputs s ''a'' = Some a" and "inputs s ''Area'' = Some Area"
    and "inputs s ''rho'' = Some rho" and "inputs s ''Vu'' = Some Vu"
  shows "is_partial s ''thrust'' ''Vu'' (4 * (a * Area * rho * Vu) * (1 - a))"
  using assms vary_Vu [OF assms] by (intro is_partialI [OF _ _ deriv_thrust_Vu]) auto

lemma partial_Cp_a:
  assumes "inputs s ''a'' = Some a" and "inputs s ''Area'' = Some Area"
    and "inputs s ''rho'' = Some rho" and "inputs s ''Vu'' = Some Vu"
  shows "is_partial s ''Cp'' ''a'' (4 * a * (2 * a - 2) + 4 * (1 - a) ^ 2)"
  using assms vary_a [OF assms] by (intro is_partialI [OF _ _ deriv_Cp_a]) auto

lemma partial_power_a:
  assumes "inputs s ''a'' = Some a" and "inputs s ''Area'' = Some Area"
    and "inputs s ''rho'' = Some rho" and "inputs s ''Vu'' = Some Vu"
  shows "is_partial s ''power'' ''a'' (2 * Area * Vu ^ 3 * a * rho * (2 * a - 2) + 2 * Area * Vu ^ 3 * rho * (1 - a) ^ 2)"
  using assms vary_a [OF assms] by (intro is_partialI [OF _ _ deriv_power_a]) auto

lemma partial_power_Area:
  assumes "inputs s ''a'' = Some a" and "inputs s ''Area'' = Some Area"
    and "inputs s ''rho'' = Some rho" and "inputs s ''Vu'' = Some Vu"
  shows "is_partial s ''power'' ''Area'' (2 * Vu ^ 3 * a * rho * (1 - a) ^ 2)"
  using assms vary_Area [OF assms] by (intro is_partialI [OF _ _ deriv_power_Area]) auto

lemma partial_power_rho:
  assumes "inputs s ''a'' = Some a" and "inputs s ''Area'' = Some Area"
    and "inputs s ''rho'' = Some rho" and "inputs s ''Vu'' = Some Vu"
  shows "is_partial s ''power'' ''rho'' (2 * (a * Area) * Vu ^ 3 * (1 - a) ^ 2)"
  using assms vary_rho [OF assms] by (intro is_partialI [OF _ _ deriv_power_rho]) auto

lemma partial_power_Vu:
  assumes "inputs s ''a'' = Some a" and "inputs s ''Area'' = Some Area"
    and "inputs s ''rho'' = Some rho" and "inputs s ''Vu'' = Some Vu"
  shows "is_partial s ''power'' ''Vu'' (6 * Area * Vu ^ 2 * a * rho * (1 - a) ^ 2)"
  using assms vary_Vu [OF assms] by (intro is_partialI [OF _ _ deriv_power_Vu]) auto

lemma partial_Vd_Vu:
  assumes "inputs s ''a'' = Some a" and "inputs s ''Area'' = Some Area"
    and "inputs s ''rho'' = Some rho" and "inputs s ''Vu'' = Some Vu"
  shows "is_partial s ''Vd'' ''Vu'' (1 - 2 * a)"
  using assms vary_Vu [OF assms] by (intro is_partialI [OF _ _ deriv_Vd_Vu]) auto


section \<open>Evaluation within the range of a float\<close>

text \<open>
  Sums, differences, products and powers of reals bounded by powers of two stay bounded by
  a power of two; as long as the exponent is at most 1023 the float operations return the
  exact result.
\<close>

lemma max_float_ge: "k \<le> 1023 \<Longrightarrow> (2::real) ^ k \<le> max_float"
proof -
  assume "k \<le> 1023"
  then have "(2::real) ^ k \<le> 2 ^ 1023" by (intro power_increasing) simp_all
  also have "(2::real) ^ 1023 \<le> 2 ^ 1024 - 2 ^ 971"
  proof -
    have "(2::real) ^ 971 \<le> 2 ^ 1023" by (intro power_increasing) simp_all
    moreover have "(2::real) ^ 1024 = 2 * 2 ^ 1023"
      using power_Suc [of "2::real" 1023] by simp
    ultimately show ?thesis by linarith
  qed
  finally show ?thesis by (simp add: max_float_def)
qed

lemma rnd_bounded: "bounded k x \<Longrightarrow> k \<le> 1023 \<Longrightarrow> rnd x = Fin x"
  using max_float_ge [of k] by (auto simp add: rnd_def bounded_def)

lemma bounded_mult: "bounded m x \<Longrightarrow> bounded n y \<Longrightarrow> bounded (m + n) (x * y)"
  unfolding bounded_def by (simp add: abs_mult power_add mult_mono)

lemma bounded_add: "bounded m x \<Longrightarrow> bounded n y \<Longrightarrow> bounded (Suc (max m n)) (x + y)"
proof -
  assume x: "bounded m x" and y: "bounded n y"
  have "(2::real) ^ m \<le> 2 ^ max m n" "(2::real) ^ n \<le> 2 ^ max m n"
    by (intro power_increasing; simp)+
  with x y have "\<bar>x\<bar> \<le> 2 ^ max m n" "\<bar>y\<bar> \<le> 2 ^ max m n"
    unfolding bounded_def by linarith+
  then have "\<bar>x + y\<bar> \<le> 2 * 2 ^ max m n" by linarith
  then show ?thesis by (simp add: bounded_def)
qed

lemma bounded_neg: "bounded m x \<Longrightarrow> bounded m (- x)"
  by (simp add: bounded_def)

lemma bounded_power: "bounded m x \<Longrightarrow> bounded (m * n) (x ^ n)"
  unfolding bounded_def by (simp add: power_abs power_mult power_mono)

lemma val_leaf: "bounded k x \<Longrightarrow> k \<le> 1023 \<Longrightarrow> val (Fin x) x k"
  by (simp add: val_def)

lemma val_fmul: "val X x m \<Longrightarrow> val Y y n \<Longrightarrow> m + n \<le> 1023 \<Longrightarrow> val (fmul X Y) (x * y) (m + n)"
  using rnd_bounded [OF bounded_mult [of m x n y]]
  by (simp add: val_def bounded_mult)

lemma val_fadd:
  "val X x m \<Longrightarrow> val Y y n \<Longrightarrow> Suc (max m n) \<le> 1023 \<Longrightarrow> val (fadd X Y) (x + y) (Suc (max m n))"
  using rnd_bounded [OF bounded_add [of m x n y]]
  by (simp add: val_def bounded_add)

lemma val_fsub:
  "val X x m \<Longrightarrow> val Y y n \<Longrightarrow> Suc (max m n) \<le> 1023 \<Longrightarrow> val (fsub X Y) (x - y) (Suc (max m n))"
  using val_fadd [of X x m "fneg Y" "- y" n]
  by (simp add: val_def fsub_def bounded_neg)

lemma val_fneg: "val X x m \<Longrightarrow> val (fneg X) (- x) m"
  by (auto simp add: val_def bounded_neg)

lemma val_weaken: "val X x m \<Longrightarrow> m \<le> k \<Longrightarrow> k \<le> 1023 \<Longrightarrow> val X x k"
proof -
  assume v: "val X x m" and mk: "m \<le> k" and k: "k \<le> 1023"
  have "(2::real) ^ m \<le> 2 ^ k" using mk by (intro power_increasing) simp_all
  moreover have "\<bar>x\<bar> \<le> 2 ^ m" using v by (simp add: val_def bounded_def)
  ultimately have "\<bar>x\<bar> \<le> 2 ^ k" by linarith
  with v k show ?thesis by (simp add: val_def bounded_def)
qed

lemma val_eq: "val X x k \<Longrightarrow> X = Fin x"
  by (simp add: val_def)

lemma fpow_bounded:
  "bounded m x \<Longrightarrow> m * n \<le> 1023 \<Longrightarrow> fpow (Fin x) n = Inr (Fin (x ^ n))"
  using bounded_power [of m x n] max_float_ge [of "m * n"]
  by (auto simp add: bounded_def)

lemma val_numerals:
  "val (Fin 1) 1 0" "val (Fin (1 / 2)) (1 / 2) 0" "val (Fin 2) 2 1" "val (Fin 4) 4 2"
  "val (Fin 6) 6 3" "val (Fin 8) 8 3" "val (Fin (- 2)) (- 2) 1"
  by (simp_all add: val_def bounded_def)

lemma val_Fin: "val X x k \<Longrightarrow> val (Fin x) x k"
  by (simp add: val_def)

lemma get_set_partial_float:
  "get_partial_float (set_partial_float s out wrt v) out wrt = Inr v"
  by (simp add: get_partial_float_def set_partial_float_def)

text \<open>
  With the four inputs finite and of magnitude at most \<open>2\<^sup>1\<^sup>0\<^sup>0\<close>, every
  intermediate result of the two methods stays in range, and they write the same closed
  forms as over the reals.
\<close>

lemma compute_float_in_range:
  assumes "finputs s ''a'' = Some (Fin a)" and "finputs s ''Area'' = Some (Fin Area)"
    and "finputs s ''rho'' = Some (Fin rho)" and "finputs s ''Vu'' = Some (Fin Vu)"
    and "\<bar>a\<bar> \<le> 2 ^ 100" and "\<bar>Area\<bar> \<le> 2 ^ 100"
    and "\<bar>rho\<bar> \<le> 2 ^ 100" and "\<bar>Vu\<bar> \<le> 2 ^ 100"
  shows "compute_float s = Inr
          (set_output_float
           (set_output_float
           (set_output_float
           (set_output_float
           (set_output_float
           (set_output_float
           (s)
           ''Vd'' (Fin (Vu * (1 - 2 * a))))
           ''Vr'' (Fin (1 / 2 * (Vu + Vu * (1 - 2 * a)))))
           ''Ct'' (Fin (4 * a * (1 - a))))
           ''thrust'' (Fin (4 * a * (1 - a) * (1 / 2 * rho * Area * Vu ^ 2))))
           ''Cp'' (Fin (4 * a * (1 - a) * (1 - a))))
           ''power'' (Fin (4 * a * (1 - a) * (1 - a) * (1 / 2 * rho * Area * Vu ^ 2) * Vu)))"
proof -
  have leaf: "val (Fin a) a 100" "val (Fin Area) Area 100" "val (Fin rho) rho 100"
    "val (Fin Vu) Vu 100"
    using assms(5-8) by (simp_all add: val_def bounded_def)
  have Vu2_b: "bounded 100 (Vu)"
    using leaf by (simp add: val_def)
  have Vu2: "fpow (Fin Vu) 2 = Inr (Fin (Vu ^ 2))"
    by (rule fpow_bounded [OF Vu2_b]) simp
  have Vu2_v: "val (Fin (Vu ^ 2)) (Vu ^ 2) 200"
    using bounded_power [OF Vu2_b, of 2] by (simp add: val_def)
  have qA_v: "val (fmul (fmul (fmul (Fin (1 / 2)) (Fin rho)) (Fin Area)) (Fin (Vu ^ 2))) (1 / 2 * rho * Area * Vu ^ 2) 400"
    by (rule val_weaken, (rule val_fmul val_fadd val_fsub val_fneg val_numerals leaf Vu2_v | simp)+)
  note qA = val_eq [OF qA_v] and qA_l = val_Fin [OF qA_v]
  have Vd_v: "val (fmul (Fin Vu) (fsub (Fin 1) (fmul (Fin 2) (Fin a)))) (Vu * (1 - 2 * a)) 202"
    by (rule val_weaken, (rule val_fmul val_fadd val_fsub val_fneg val_numerals leaf Vu2_v qA_l | simp)+)
  note Vd = val_eq [OF Vd_v] and Vd_l = val_Fin [OF Vd_v]
  have Vr_v: "val (fmul (Fin (1 / 2)) (fadd (Fin Vu) (Fin (Vu * (1 - 2 * a))))) (1 / 2 * (Vu + Vu * (1 - 2 * a))) 203"
    by (rule val_weaken, (rule val_fmul val_fadd val_fsub val_fneg val_numerals leaf Vu2_v qA_l Vd_l | simp)+)
  note Vr = val_eq [OF Vr_v] and Vr_l = val_Fin [OF Vr_v]
  have Ct_v: "val (fmul (fmul (Fin 4) (Fin a)) (fsub (Fin 1) (Fin a))) (4 * a * (1 - a)) 203"
    by (rule val_weaken, (rule val_fmul val_fadd val_fsub val_fneg val_numerals leaf Vu2_v qA_l Vd_l Vr_l | simp)+)
  note Ct = val_eq [OF Ct_v] and Ct_l = val_Fin [OF Ct_v]
  have thrust_v: "val (fmul (Fin (4 * a * (1 - a))) (Fin (1 / 2 * rho * Area * Vu ^ 2))) (4 * a * (1 - a) * (1 / 2 * rho * Area * Vu ^ 2)) 603"
    by (rule val_weaken, (rule val_fmul val_fadd val_fsub val_fneg val_numerals leaf Vu2_v qA_l Vd_l Vr_l Ct_l | simp)+)
  note thrust = val_eq [OF thrust_v] and thrust_l = val_Fin [OF thrust_v]
  have Cp_v: "val (fmul (Fin (4 * a * (1 - a))) (fsub (Fin 1) (Fin a))) (4 * a * (1 - a) * (1 - a)) 304"
    by (rule val_weaken, (rule val_fmul val_fadd val_fsub val_fneg val_numerals leaf Vu2_v qA_l Vd_l Vr_l Ct_l thrust_l | simp)+)
  note Cp = val_eq [OF Cp_v] and Cp_l = val_Fin [OF Cp_v]
  have power_v: "val (fmul (fmul (Fin (4 * a * (1 - a) * (1 - a))) (Fin (1 / 2 * rho * Area * Vu ^ 2))) (Fin Vu)) (4 * a * (1 - a) * (1 - a) * (1 / 2 * rho * Area * Vu ^ 2) * Vu) 804"
    by (rule val_weaken, (rule val_fmul val_fadd val_fsub val_fneg val_numerals leaf Vu2_v qA_l Vd_l Vr_l Ct_l thrust_l Cp_l | simp)+)
  note power = val_eq [OF power_v] and power_l = val_Fin [OF power_v]
  show ?thesis
    unfolding compute_float_def
    by (simp only: raising_def getitem_float_def assms(1-4) option.case sum.case Let_def
        Vu2 qA Vd Vr Ct thrust Cp power)
qed

lemma compute_partials_float_in_range:
  assumes "finputs s ''a'' = Some (Fin a)" and "finputs s ''Area'' = Some (Fin Area)"
    and "finputs s ''rho'' = Some (Fin rho)" and "finputs s ''Vu'' = Some (Fin Vu)"
    and "\<bar>a\<bar> \<le> 2 ^ 100" and "\<bar>Area\<bar> \<le> 2 ^ 100"
    and "\<bar>rho\<bar> \<le> 2 ^ 100" and "\<bar>Vu\<bar> \<le> 2 ^ 100"
  shows "compute_partials_float s = Inr
          (set_partial_float
           (set_partial_float
           (set_partial_float
           (set_partial_float
           (set_partial_float
           (set_partial_float
           (set_partial_float
           (set_partial_float
           (set_partial_float
           (set_partial_float
           (set_partial_float
           (set_partial_float
           (set_partial_float
           (s)
           ''Vr'' ''a'' (Fin (- Vu)))
           ''Vr'' ''Vu'' (Fin (1 - a)))
           ''Vd'' ''a'' (Fin (- 2 * Vu)))
           ''Ct'' ''a'' (Fin (4 - 8 * a)))
           ''thrust'' ''a'' (Fin (1 / 2 * rho * Vu ^ 2 * Area * (4 - 8 * a))))
           ''thrust'' ''Area'' (Fin (2 * Vu ^ 2 * a * rho * (1 - a))))
           ''thrust'' ''rho'' (Fin (2 * (a * Area) * Vu ^ 2 * (1 - a))))
           ''thrust'' ''Vu'' (Fin (4 * (a * Area * rho * Vu) * (1 - a))))
           ''Cp'' ''a'' (Fin (4 * a * (2 * a - 2) + 4 * (1 - a) ^ 2)))
           ''power'' ''a'' (Fin (2 * Area * Vu ^ 3 * a * rho * (2 * a - 2) + 2 * Area * Vu ^ 3 * rho * (1 - a) ^ 2)))
           ''power'' ''Area'' (Fin (2 * Vu ^ 3 * a * rho * (1 - a) ^ 2)))
           ''power'' ''rho'' (Fin (2 * (a * Area) * Vu ^ 3 * (1 - a) ^ 2)))
           ''power'' ''Vu'' (Fin (6 * Area * Vu ^ 2 * a * rho * (1 - a) ^ 2)))"
proof -
  have leaf: "val (Fin a) a 100" "val (Fin Area) Area 100" "val (Fin rho) rho 100"
    "val (Fin Vu) Vu 100"
    using assms(5-8) by (simp_all add: val_def bounded_def)
  have ata_v: "val (fmul (Fin a) (Fin Area)) (a * Area) 200"
    by (rule val_weaken, (rule val_fmul val_fadd val_fsub val_fneg val_numerals leaf | simp)+)
  note ata = val_eq [OF ata_v] and ata_l = val_Fin [OF ata_v]
  have oma_v: "val (fsub (Fin 1) (Fin a)) (1 - a) 101"
    by (rule val_weaken, (rule val_fmul val_fadd val_fsub val_fneg val_numerals leaf ata_l | simp)+)
  note oma = val_eq [OF oma_v] and oma_l = val_Fin [OF oma_v]
  have aarv_v: "val (fmul (fmul (Fin (a * Area)) (Fin rho)) (Fin Vu)) (a * Area * rho * Vu) 400"
    by (rule val_weaken, (rule val_fmul val_fadd val_fsub val_fneg val_numerals leaf ata_l oma_l | simp)+)
  note aarv = val_eq [OF aarv_v] and aarv_l = val_Fin [OF aarv_v]
  have J_Vr_a_v: "val (fneg (Fin Vu)) (- Vu) 100"
    by (rule val_weaken, (rule val_fmul val_fadd val_fsub val_fneg val_numerals leaf ata_l oma_l aarv_l | simp)+)
  note J_Vr_a = val_eq [OF J_Vr_a_v] and J_Vr_a_l = val_Fin [OF J_Vr_a_v]
  have J_Vd_a_v: "val (fmul (Fin (- 2)) (Fin Vu)) (- 2 * Vu) 101"
    by (rule val_weaken, (rule val_fmul val_fadd val_fsub val_fneg val_numerals leaf ata_l oma_l aarv_l J_Vr_a_l | simp)+)
  note J_Vd_a = val_eq [OF J_Vd_a_v] and J_Vd_a_l = val_Fin [OF J_Vd_a_v]
  have J_Ct_a_v: "val (fsub (Fin 4) (fmul (Fin 8) (Fin a))) (4 - 8 * a) 104"
    by (rule val_weaken, (rule val_fmul val_fadd val_fsub val_fneg val_numerals leaf ata_l oma_l aarv_l J_Vr_a_l J_Vd_a_l | simp)+)
  note J_Ct_a = val_eq [OF J_Ct_a_v] and J_Ct_a_l = val_Fin [OF J_Ct_a_v]
  have Vu2_b: "bounded 100 (Vu)"
    using leaf ata_l oma_l aarv_l J_Vr_a_l J_Vd_a_l J_Ct_a_l by (simp add: val_def)
  have Vu2: "fpow (Fin Vu) 2 = Inr (Fin (Vu ^ 2))"
    by (rule fpow_bounded [OF Vu2_b]) simp
  have Vu2_v: "val (Fin (Vu ^ 2)) (Vu ^ 2) 200"
    using bounded_power [OF Vu2_b, of 2] by (simp add: val_def)
  have Vu3_b: "bounded 100 (Vu)"
    using leaf ata_l oma_l aarv_l J_Vr_a_l J_Vd_a_l J_Ct_a_l Vu2_v by (simp add: val_def)
  have Vu3: "fpow (Fin Vu) 3 = Inr (Fin (Vu ^ 3))"
    by (rule fpow_bounded [OF Vu3_b]) simp
  have Vu3_v: "val (Fin (Vu ^ 3)) (Vu ^ 3) 300"
    using bounded_power [OF Vu3_b, of 3] by (simp add: val_def)
  have oma2_b: "bounded 101 (1 - a)"
    using leaf ata_l oma_l aarv_l J_Vr_a_l J_Vd_a_l J_Ct_a_l Vu2_v Vu3_v by (simp add: val_def)
  have oma2: "fpow (Fin (1 - a)) 2 = Inr (Fin ((1 - a) ^ 2))"
    by (rule fpow_bounded [OF oma2_b]) simp
  have oma2_v: "val (Fin ((1 - a) ^ 2)) ((1 - a) ^ 2) 202"
    using bounded_power [OF oma2_b, of 2] by (simp add: val_def)
  have J_thrust_a_v: "val (fmul (fmul (fmul (fmul (Fin (1 / 2)) (Fin rho)) (Fin (Vu ^ 2))) (Fin Area)) (Fin (4 - 8 * a))) (1 / 2 * rho * Vu ^ 2 * Area * (4 - 8 * a)) 504"
    by (rule val_weaken, (rule val_fmul val_fadd val_fsub val_fneg val_numerals leaf ata_l oma_l aarv_l J_Vr_a_l J_Vd_a_l J_Ct_a_l Vu2_v Vu3_v oma2_v | simp)+)
  note J_thrust_a = val_eq [OF J_thrust_a_v] and J_thrust_a_l = val_Fin [OF J_thrust_a_v]
  have J_thrust_Area_v: "val (fmul (fmul (fmul (fmul (Fin 2) (Fin (Vu ^ 2))) (Fin a)) (Fin rho)) (Fin (1 - a))) (2 * Vu ^ 2 * a * rho * (1 - a)) 502"
    by (rule val_weaken, (rule val_fmul val_fadd val_fsub val_fneg val_numerals leaf ata_l oma_l aarv_l J_Vr_a_l J_Vd_a_l J_Ct_a_l Vu2_v Vu3_v oma2_v J_thrust_a_l | simp)+)
  note J_thrust_Area = val_eq [OF J_thrust_Area_v] and J_thrust_Area_l = val_Fin [OF J_thrust_Area_v]
  have J_thrust_rho_v: "val (fmul (fmul (fmul (Fin 2) (Fin (a * Area))) (Fin (Vu ^ 2))) (Fin (1 - a))) (2 * (a * Area) * Vu ^ 2 * (1 - a)) 502"
    by (rule val_weaken, (rule val_fmul val_fadd val_fsub val_fneg val_numerals leaf ata_l oma_l aarv_l J_Vr_a_l J_Vd_a_l J_Ct_a_l Vu2_v Vu3_v oma2_v J_thrust_a_l J_thrust_Area_l | simp)+)
  note J_thrust_rho = val_eq [OF J_thrust_rho_v] and J_thrust_rho_l = val_Fin [OF J_thrust_rho_v]
  have J_thrust_Vu_v: "val (fmul (fmul (Fin 4) (Fin (a * Area * rho * Vu))) (Fin (1 - a))) (4 * (a * Area * rho * Vu) * (1 - a)) 503"
    by (rule val_weaken, (rule val_fmul val_fadd val_fsub val_fneg val_numerals leaf ata_l oma_l aarv_l J_Vr_a_l J_Vd_a_l J_Ct_a_l Vu2_v Vu3_v oma2_v J_thrust_a_l J_thrust_Area_l J_thrust_rho_l | simp)+)
  note J_thrust_Vu = val_eq [OF J_thrust_Vu_v] and J_thrust_Vu_l = val_Fin [OF J_thrust_Vu_v]
  have J_Cp_a_v: "val (fadd (fmul (fmul (Fin 4) (Fin a)) (fsub (fmul (Fin 2) (Fin a)) (Fin 2))) (fmul (Fin 4) (Fin ((1 - a) ^ 2)))) (4 * a * (2 * a - 2) + 4 * (1 - a) ^ 2) 205"
    by (rule val_weaken, (rule val_fmul val_fadd val_fsub val_fneg val_numerals leaf ata_l oma_l aarv_l J_Vr_a_l J_Vd_a_l J_Ct_a_l Vu2_v Vu3_v oma2_v J_thrust_a_l J_thrust_Area_l J_thrust_rho_l J_thrust_Vu_l | simp)+)
  note J_Cp_a = val_eq [OF J_Cp_a_v] and J_Cp_a_l = val_Fin [OF J_Cp_a_v]
  have J_power_a_v: "val (fadd (fmul (fmul (fmul (fmul (fmul (Fin 2) (Fin Area)) (Fin (Vu ^ 3))) (Fin a)) (Fin rho)) (fsub (fmul (Fin 2) (Fin a)) (Fin 2))) (fmul (fmul (fmul (fmul (Fin 2) (Fin Area)) (Fin (Vu ^ 3))) (Fin rho)) (Fin ((1 - a) ^ 2)))) (2 * Area * Vu ^ 3 * a * rho * (2 * a - 2) + 2 * Area * Vu ^ 3 * rho * (1 - a) ^ 2) 704"
    by (rule val_weaken, (rule val_fmul val_fadd val_fsub val_fneg val_numerals leaf ata_l oma_l aarv_l J_Vr_a_l J_Vd_a_l J_Ct_a_l Vu2_v Vu3_v oma2_v J_thrust_a_l J_thrust_Area_l J_thrust_rho_l J_thrust_Vu_l J_Cp_a_l | simp)+)
  note J_power_a = val_eq [OF J_power_a_v] and J_power_a_l = val_Fin [OF J_power_a_v]
  have J_power_Area_v: "val (fmul (fmul (fmul (fmul (Fin 2) (Fin (Vu ^ 3))) (Fin a)) (Fin rho)) (Fin ((1 - a) ^ 2))) (2 * Vu ^ 3 * a * rho * (1 - a) ^ 2) 703"
    by (rule val_weaken, (rule val_fmul val_fadd val_fsub val_fneg val_numerals leaf ata_l oma_l aarv_l J_Vr_a_l J_Vd_a_l J_Ct_a_l Vu2_v Vu3_v oma2_v J_thrust_a_l J_thrust_Area_l J_thrust_rho_l J_thrust_Vu_l J_Cp_a_l J_power_a_l | simp)+)
  note J_power_Area = val_eq [OF J_power_Area_v] and J_power_Area_l = val_Fin [OF J_power_Area_v]
  have J_power_rho_v: "val (fmul (fmul (fmul (Fin 2) (Fin (a * Area))) (Fin (Vu ^ 3))) (Fin ((1 - a) ^ 2))) (2 * (a * Area) * Vu ^ 3 * (1 - a) ^ 2) 703"
    by (rule val_weaken, (rule val_fmul val_fadd val_fsub val_fneg val_numerals leaf ata_l oma_l aarv_l J_Vr_a_l J_Vd_a_l J_Ct_a_l Vu2_v Vu3_v oma2_v J_thrust_a_l J_thrust_Area_l J_thrust_rho_l J_thrust_Vu_l J_Cp_a_l J_power_a_l J_power_Area_l | simp)+)
  note J_power_rho = val_eq [OF J_power_rho_v] and J_power_rho_l = val_Fin [OF J_power_rho_v]
  have J_power_Vu_v: "val (fmul (fmul (fmul (fmul (fmul (Fin 6) (Fin Area)) (Fin (Vu ^ 2))) (Fin a)) (Fin rho)) (Fin ((1 - a) ^ 2))) (6 * Area * Vu ^ 2 * a * rho * (1 - a) ^ 2) 705"
    by (rule val_weaken, (rule val_fmul val_fadd val_fsub val_fneg val_numerals leaf ata_l oma_l aarv_l J_Vr_a_l J_Vd_a_l J_Ct_a_l Vu2_v Vu3_v oma2_v J_thrust_a_l J_thrust_Area_l J_thrust_rho_l J_thrust_Vu_l J_Cp_a_l J_power_a_l J_power_Area_l J_power_rho_l | simp)+)
  note J_power_Vu = val_eq [OF J_power_Vu_v] and J_power_Vu_l = val_Fin [OF J_power_Vu_v]
  show ?thesis
    unfolding compute_partials_float_def
    by (simp only: raising_def getitem_float_def assms(1-4) option.case sum.case Let_def
        get_set_partial_float ata oma aarv J_Vr_a J_Vd_a J_Ct_a Vu2 Vu3 oma2 J_thrust_a J_thrust_Area J_thrust_rho J_thrust_Vu J_Cp_a J_power_a J_power_Area J_power_rho J_power_Vu)
qed

text \<open>
  Forward evaluation on finite inputs returns exactly when \<^verbatim>\<open>Vu ** 2\<close> is in
  range, and raises \<^verbatim>\<open>OverflowError\<close> with the state untouched otherwise.
\<close>

lemma compute_float_raises:
  assumes "finputs s ''a'' = Some (Fin a)" and "finputs s ''Area'' = Some (Fin Area)"
    and "finputs s ''rho'' = Some (Fin rho)" and "finputs s ''Vu'' = Some (Fin Vu)"
  shows "(\<exists>s'. compute_float s = Inr s') \<longleftrightarrow> \<bar>Vu ^ 2\<bar> \<le> max_float"
    and "max_float < \<bar>Vu ^ 2\<bar> \<Longrightarrow> compute_float s = Inl (OverflowError, s)"
  using assms by (simp_all add: compute_float_def raising_def getitem_float_def Let_def)

section \<open>The polynomial behind the power coefficient\<close>

lemma betz_factor:
  "16 - 27 * (4 * a * (1 - a) ^ 2) = 4 * (3 * a - 1) ^ 2 * (4 - 3 * a)" for a :: real
  by (simp add: power2_eq_square algebra_simps)

lemma betz_bound:
  fixes a :: real
  assumes "0 \<le> a" and "a \<le> 1"
  shows "4 * a * (1 - a) ^ 2 \<le> 16 / 27"
    and "4 * a * (1 - a) ^ 2 = 16 / 27 \<longleftrightarrow> a = 1 / 3"
proof -
  have pos: "0 < 4 - 3 * a" using assms by simp
  have "0 \<le> 4 * (3 * a - 1) ^ 2 * (4 - 3 * a)" using pos by simp
  then show "4 * a * (1 - a) ^ 2 \<le> 16 / 27" using betz_factor [of a] by linarith
  have "4 * a * (1 - a) ^ 2 = 16 / 27 \<longleftrightarrow> 4 * (3 * a - 1) ^ 2 * (4 - 3 * a) = 0"
    using betz_factor [of a] by linarith
  also have "\<dots> \<longleftrightarrow> 3 * a - 1 = 0" using pos by simp
  also have "\<dots> \<longleftrightarrow> a = 1 / 3" by auto
  finally show "4 * a * (1 - a) ^ 2 = 16 / 27 \<longleftrightarrow> a = 1 / 3" .
qed

section \<open>Forward evaluation: the values written\<close>

text \<open>
  Claim C1. For every quadruple of reals \<open>(a, Area, rho, Vu)\<close> held by the inputs,
  forward evaluation succeeds and writes into the six output slots exactly
  \<open>Vd = Vu (1 - 2 a)\<close>, \<open>Vr = (Vu + Vd) / 2\<close>, \<open>Ct = 4 a (1 - a)\<close>,
  \<open>thrust = Ct (1/2) rho Area Vu\<^sup>2\<close>, \<open>Cp = Ct (1 - a)\<close> and
  \<open>power = Cp (1/2) rho Area Vu\<^sup>3\<close>.
\<close>

theorem compute_closed_forms:
  assumes "inputs s ''a'' = Some a" and "inputs s ''Area'' = Some Area"
    and "inputs s ''rho'' = Some rho" and "inputs s ''Vu'' = Some Vu"
  shows "\<exists>s'. compute s = Inr s' \<and>
           (let Vd = Vu * (1 - 2 * a);
                Vr = (Vu + Vd) / 2;
                Ct = 4 * a * (1 - a);
                thrust = Ct * (1 / 2) * rho * Area * Vu ^ 2;
                Cp = Ct * (1 - a);
                power = Cp * (1 / 2) * rho * Area * Vu ^ 3
            in outputs s' ''Vd'' = Some Vd \<and> outputs s' ''Vr'' = Some Vr
             \<and> outputs s' ''Ct'' = Some Ct \<and> outputs s' ''thrust'' = Some thrust
             \<and> outputs s' ''Cp'' = Some Cp \<and> outputs s' ''power'' = Some power)"
  by (simp add: compute_Inr [OF assms] Let_def power3_eq_cube power2_eq_square)

theorem compute_closed_forms_witness:
  "\<exists>s'. compute initial = Inr s'
       \<and> outputs s' ''Vd'' = Some 0 \<and> outputs s' ''Vr'' = Some 5
       \<and> outputs s' ''Ct'' = Some 1 \<and> outputs s' ''thrust'' = Some (1225 / 2)
       \<and> outputs s' ''Cp'' = Some (1 / 2) \<and> outputs s' ''power'' = Some (6125 / 2)"
  using compute_closed_forms [of initial "1 / 2" 10 "1225 / 1000" 10]
  by (auto simp add: initial_def indeps_def)

section \<open>The Jacobian entries are the derivatives\<close>

text \<open>
  Claim C2. For every quadruple of reals held by the inputs, partial-derivative evaluation
  succeeds, and every one of the thirteen Jacobian entries it assigns is the derivative of
  the corresponding output of forward evaluation with respect to the corresponding input,
  the other three inputs held fixed. (That these thirteen keys are all that the method
  assigns is part of the frame theorem below.)
\<close>

theorem partials_are_derivatives:
  assumes "inputs s ''a'' = Some a" and "inputs s ''Area'' = Some Area"
    and "inputs s ''rho'' = Some rho" and "inputs s ''Vu'' = Some Vu"
  shows "\<exists>s'. compute_partials s = Inr s' \<and>
           (\<forall>(out, wrt) \<in> set partial_names.
              case J s' (out, wrt) of None \<Rightarrow> False | Some D \<Rightarrow> is_partial s out wrt D)"
  unfolding compute_partials_Inr [OF assms] partial_names_def
  using partial_Vr_a [OF assms] partial_Vr_Vu [OF assms] partial_Vd_a [OF assms]
    partial_Ct_a [OF assms] partial_thrust_a [OF assms] partial_thrust_Area [OF assms]
    partial_thrust_rho [OF assms] partial_thrust_Vu [OF assms] partial_Cp_a [OF assms]
    partial_power_a [OF assms] partial_power_Area [OF assms] partial_power_rho [OF assms]
    partial_power_Vu [OF assms]
  by simp

theorem partials_are_derivatives_witness:
  "\<exists>s'. compute_partials initial = Inr s'
       \<and> J s' (''Cp'', ''a'') = Some (- 1) \<and> is_partial initial ''Cp'' ''a'' (- 1)
       \<and> J s' (''power'', ''Vu'') = Some (3675 / 4) \<and> is_partial initial ''power'' ''Vu'' (3675 / 4)"
proof -
  obtain s' where s': "compute_partials initial = Inr s'"
    and all: "\<forall>(out, wrt) \<in> set partial_names.
                case J s' (out, wrt) of None \<Rightarrow> False | Some D \<Rightarrow> is_partial initial out wrt D"
    using partials_are_derivatives [of initial "1 / 2" 10 "1225 / 1000" 10]
    by (auto simp add: initial_def indeps_def)
  have J1: "J s' (''Cp'', ''a'') = Some (- 1)" and J2: "J s' (''power'', ''Vu'') = Some (3675 / 4)"
    using s' compute_partials_Inr [of initial "1 / 2" 10 "1225 / 1000" 10]
    by (auto simp add: initial_def indeps_def power2_eq_square)
  from all have "case J s' (''Cp'', ''a'') of None \<Rightarrow> False
                   | Some D \<Rightarrow> is_partial initial ''Cp'' ''a'' D"
    and "case J s' (''power'', ''Vu'') of None \<Rightarrow> False
          | Some D \<Rightarrow> is_partial initial ''power'' ''Vu'' D"
    by (simp_all add: partial_names_def)
  with J1 J2 s' show ?thesis by simp
qed

section \<open>An entry that is not supplied\<close>

text \<open>
  Claim C4 says that every pair of an output and an input with a sensitivity that is not
  identically zero has its Jacobian entry assigned. The pair of \<^verbatim>\<open>Vd\<close> and
  \<^verbatim>\<open>Vu\<close> is not assigned, although \<open>Vd = Vu (1 - 2 a)\<close> has derivative
  \<open>1 - 2 a\<close> in \<open>Vu\<close>: at \<open>a = 1/4\<close>, with the other inputs at their initial
  values and an empty Jacobian, the entry is absent after the evaluation, the derivative is
  \<open>1/2\<close>, and it is not zero.
\<close>

theorem Vd_Vu_partial_not_supplied:
  "\<exists>s'. compute_partials (initial\<lparr>inputs := indeps(''a'' \<mapsto> 1 / 4)\<rparr>) = Inr s'
       \<and> J s' (''Vd'', ''Vu'') = None
       \<and> is_partial (initial\<lparr>inputs := indeps(''a'' \<mapsto> 1 / 4)\<rparr>) ''Vd'' ''Vu'' (1 / 2)
       \<and> \<not> is_partial (initial\<lparr>inputs := indeps(''a'' \<mapsto> 1 / 4)\<rparr>) ''Vd'' ''Vu'' 0"
proof -
  let ?s = "initial\<lparr>inputs := indeps(''a'' \<mapsto> 1 / 4)\<rparr>"
  have i: "inputs ?s ''a'' = Some (1 / 4)" "inputs ?s ''Area'' = Some 10"
    "inputs ?s ''rho'' = Some (1225 / 1000)" "inputs ?s ''Vu'' = Some 10"
    by (simp_all add: initial_def indeps_def)
  have p: "is_partial ?s ''Vd'' ''Vu'' (1 / 2)"
    using partial_Vd_Vu [OF i] by simp
  have "\<not> is_partial ?s ''Vd'' ''Vu'' 0"
    using is_partial_unique [OF p] by fastforce
  moreover have "\<exists>s'. compute_partials ?s = Inr s' \<and> J s' (''Vd'', ''Vu'') = None"
    unfolding compute_partials_Inr [OF i] by (simp add: initial_def)
  ultimately show ?thesis using p by blast
qed

section \<open>Totality\<close>

text \<open>
  Claim C5 says that forward evaluation and partial-derivative evaluation raise no error
  and leave a defined real value in every output slot and every supplied Jacobian entry,
  for every real-valued input quadruple. On floats this holds within a range: when the
  four inputs are finite and of magnitude at most \<open>2\<^sup>1\<^sup>0\<^sup>0\<close>, both methods return
  normally, each of the six output slots holds a finite value afterwards, and so does each
  of the thirteen Jacobian entries.
\<close>

theorem evaluation_total_in_range:
  assumes "finputs s ''a'' = Some (Fin a)" and "finputs s ''Area'' = Some (Fin Area)"
    and "finputs s ''rho'' = Some (Fin rho)" and "finputs s ''Vu'' = Some (Fin Vu)"
    and "\<bar>a\<bar> \<le> 2 ^ 100" and "\<bar>Area\<bar> \<le> 2 ^ 100"
    and "\<bar>rho\<bar> \<le> 2 ^ 100" and "\<bar>Vu\<bar> \<le> 2 ^ 100"
  shows "(\<exists>s'. compute_float s = Inr s'
            \<and> (\<forall>k \<in> set output_names.
                  case foutputs s' k of None \<Rightarrow> False | Some v \<Rightarrow> is_finite v))
       \<and> (\<exists>s'. compute_partials_float s = Inr s'
            \<and> (\<forall>k \<in> set partial_names.
                  case fJ s' k of None \<Rightarrow> False | Some v \<Rightarrow> is_finite v))"
  unfolding compute_float_in_range [OF assms] compute_partials_float_in_range [OF assms]
  by (simp add: output_names_def partial_names_def set_output_float_def set_partial_float_def)

theorem evaluation_total_in_range_witness:
  "(\<exists>s'. compute_float initial_float = Inr s'
      \<and> (case foutputs s' ''power'' of None \<Rightarrow> False | Some v \<Rightarrow> is_finite v))
 \<and> (\<exists>s'. compute_partials_float initial_float = Inr s'
      \<and> (case fJ s' (''power'', ''Vu'') of None \<Rightarrow> False | Some v \<Rightarrow> is_finite v))"
proof -
  have i: "finputs initial_float ''a'' = Some (Fin (1 / 2))"
    "finputs initial_float ''Area'' = Some (Fin 10)"
    "finputs initial_float ''rho'' = Some (Fin (1225 / 1000))"
    "finputs initial_float ''Vu'' = Some (Fin 10)"
    by (simp_all add: initial_float_def indeps_def)
  have "(10 :: real) \<le> 2 ^ 4" by simp
  also have "(2 :: real) ^ 4 \<le> 2 ^ 100" by (intro power_increasing) simp_all
  finally have ten: "(10 :: real) \<le> 2 ^ 100" .
  have one: "(1 :: real) \<le> 2 ^ 100" by (rule one_le_power) simp
  have b: "\<bar>1 / 2 :: real\<bar> \<le> 2 ^ 100" "\<bar>10 :: real\<bar> \<le> 2 ^ 100"
    "\<bar>1225 / 1000 :: real\<bar> \<le> 2 ^ 100" "\<bar>10 :: real\<bar> \<le> 2 ^ 100"
    using ten one by simp_all
  from evaluation_total_in_range [OF i b] show ?thesis
    by (auto simp add: output_names_def partial_names_def)
qed

text \<open>
  Outside that range the claim as stated fails. With \<open>Vu = 10\<^sup>2\<^sup>0\<^sup>0\<close> and the
  other inputs at their initial values, \<^verbatim>\<open>Vu ** 2\<close> in line 46 is out of range:
  forward evaluation raises \<^verbatim>\<open>OverflowError\<close> and writes no output.
\<close>

theorem evaluation_overflow_counterexample:
  "compute_float (initial_float\<lparr>finputs := (finputs initial_float)(''Vu'' \<mapsto> Fin (10 ^ 200))\<rparr>)
     = Inl (OverflowError,
            initial_float\<lparr>finputs := (finputs initial_float)(''Vu'' \<mapsto> Fin (10 ^ 200))\<rparr>)"
proof -
  let ?s = "initial_float\<lparr>finputs := (finputs initial_float)(''Vu'' \<mapsto> Fin (10 ^ 200))\<rparr>"
  have i: "finputs ?s ''a'' = Some (Fin (1 / 2))" "finputs ?s ''Area'' = Some (Fin 10)"
    "finputs ?s ''rho'' = Some (Fin (1225 / 1000))" "finputs ?s ''Vu'' = Some (Fin (10 ^ 200))"
    by (simp_all add: initial_float_def indeps_def)
  have "max_float < \<bar>((10 :: real) ^ 200) ^ 2\<bar>"
    by (simp add: max_float_def)
  from compute_float_raises(2) [OF i this] show ?thesis .
qed

section \<open>Frame\<close>

text \<open>
  Claim C6. Forward evaluation leaves the inputs and the Jacobian as they were, changes no
  output slot but the six it assigns, and adds exactly those six keys. Partial-derivative
  evaluation leaves the inputs and the outputs as they were, changes no Jacobian entry but
  the thirteen it assigns, and adds exactly those thirteen keys. The six keys assigned are
  the six outputs that \<^verbatim>\<open>setup\<close> declares.
\<close>

theorem evaluation_frame:
  "(\<forall>s'. compute s = Inr s' \<longrightarrow>
       inputs s' = inputs s \<and> J s' = J s
     \<and> (\<forall>k. k \<notin> set output_names \<longrightarrow> outputs s' k = outputs s k)
     \<and> dom (outputs s') = dom (outputs s) \<union> set output_names)
 \<and> (\<forall>s'. compute_partials s = Inr s' \<longrightarrow>
       inputs s' = inputs s \<and> outputs s' = outputs s
     \<and> (\<forall>k. k \<notin> set partial_names \<longrightarrow> J s' k = J s k)
     \<and> dom (J s') = dom (J s) \<union> set partial_names)
 \<and> set output_names = dom setup_outputs"
proof (intro conjI allI impI)
  fix s' assume c: "compute s = Inr s'"
  from compute_InrD [OF c] obtain a Area rho Vu where
    i: "inputs s ''a'' = Some a" "inputs s ''Area'' = Some Area"
       "inputs s ''rho'' = Some rho" "inputs s ''Vu'' = Some Vu" by blast
  note eq = c [unfolded compute_Inr [OF i], simplified, symmetric]
  show "inputs s' = inputs s" by (simp add: eq)
  show "J s' = J s" by (simp add: eq)
  show "outputs s' k = outputs s k" if "k \<notin> set output_names" for k
    using that by (simp add: eq output_names_def)
  show "dom (outputs s') = dom (outputs s) \<union> set output_names"
    by (auto simp add: eq output_names_def)
next
  fix s' assume c: "compute_partials s = Inr s'"
  from compute_partials_InrD [OF c] obtain a Area rho Vu where
    i: "inputs s ''a'' = Some a" "inputs s ''Area'' = Some Area"
       "inputs s ''rho'' = Some rho" "inputs s ''Vu'' = Some Vu" by blast
  note eq = c [unfolded compute_partials_Inr [OF i], simplified, symmetric]
  show "inputs s' = inputs s" by (simp add: eq)
  show "outputs s' = outputs s" by (simp add: eq)
  show "J s' k = J s k" if "k \<notin> set partial_names" for k
    using that by (simp add: eq partial_names_def)
  show "dom (J s') = dom (J s) \<union> set partial_names"
    by (auto simp add: eq partial_names_def)
next
  show "set output_names = dom setup_outputs"
    by (auto simp add: output_names_def setup_outputs_def)
qed

theorem evaluation_frame_witness:
  "\<exists>s' s''. compute initial = Inr s' \<and> inputs s' = indeps \<and> J s' = Map.empty
       \<and> dom (outputs s') = set output_names
       \<and> compute_partials initial = Inr s'' \<and> inputs s'' = indeps
       \<and> outputs s'' = setup_outputs \<and> dom (J s'') = set partial_names"
proof -
  have i: "inputs initial ''a'' = Some (1 / 2)" "inputs initial ''Area'' = Some 10"
    "inputs initial ''rho'' = Some (1225 / 1000)" "inputs initial ''Vu'' = Some 10"
    by (simp_all add: initial_def indeps_def)
  obtain s' where 1: "compute initial = Inr s'"
    using compute_Inr [OF i] by blast
  obtain s'' where 2: "compute_partials initial = Inr s''"
    using compute_partials_Inr [OF i] by blast
  have d: "dom (outputs initial) \<union> set output_names = set output_names"
    by (auto simp add: initial_def setup_outputs_def output_names_def)
  from evaluation_frame [of initial] 1 2 d
  have "inputs s' = indeps \<and> J s' = Map.empty \<and> dom (outputs s') = set output_names
      \<and> inputs s'' = indeps \<and> outputs s'' = setup_outputs \<and> dom (J s'') = set partial_names"
    by (simp add: initial_def)
  with 1 2 show ?thesis by blast
qed

section \<open>Determinism\<close>

text \<open>
  Claim C7. Two invocations on states whose inputs agree on the four input names produce
  the same six outputs (forward evaluation) and the same thirteen Jacobian entries
  (partial-derivative evaluation), whatever the outputs and the Jacobian held before in
  either state, and fail with the same error if they fail. In particular an invocation on
  the state that an earlier invocation returned gives that state again.
\<close>

theorem evaluation_deterministic:
  assumes "\<forall>k \<in> {''a'', ''Area'', ''rho'', ''Vu''}. inputs s k = inputs t k"
  shows "(\<forall>s'. compute s = Inr s' \<longrightarrow>
            (\<exists>t'. compute t = Inr t' \<and> (\<forall>k \<in> set output_names. outputs t' k = outputs s' k))
          \<and> compute s' = Inr s')
       \<and> (\<forall>e. compute s = Inl e \<longrightarrow> compute t = Inl e)
       \<and> (\<forall>s'. compute_partials s = Inr s' \<longrightarrow>
            (\<exists>t'. compute_partials t = Inr t' \<and> (\<forall>k \<in> set partial_names. J t' k = J s' k))
          \<and> compute_partials s' = Inr s')
       \<and> (\<forall>e. compute_partials s = Inl e \<longrightarrow> compute_partials t = Inl e)"
proof (intro conjI allI impI)
  fix s' assume c: "compute s = Inr s'"
  from compute_InrD [OF c] obtain a Area rho Vu where
    i: "inputs s ''a'' = Some a" "inputs s ''Area'' = Some Area"
       "inputs s ''rho'' = Some rho" "inputs s ''Vu'' = Some Vu" by blast
  then have j: "inputs t ''a'' = Some a" "inputs t ''Area'' = Some Area"
       "inputs t ''rho'' = Some rho" "inputs t ''Vu'' = Some Vu" using assms by simp_all
  note eq = c [unfolded compute_Inr [OF i], simplified, symmetric]
  show "\<exists>t'. compute t = Inr t' \<and> (\<forall>k \<in> set output_names. outputs t' k = outputs s' k)"
    unfolding compute_Inr [OF j] by (simp add: eq output_names_def)
  have i': "inputs s' ''a'' = Some a" "inputs s' ''Area'' = Some Area"
       "inputs s' ''rho'' = Some rho" "inputs s' ''Vu'' = Some Vu" using i by (simp_all add: eq)
  show "compute s' = Inr s'"
    unfolding compute_Inr [OF i'] by (simp add: eq)
next
  fix e assume c: "compute s = Inl e"
  have "compute t = compute s \<or> (\<exists>t'. compute t = Inr t')"
    using assms c
    by (auto simp add: compute_def bind_err_def getitem_def Let_def split: option.splits)
  moreover have "\<not> (\<exists>t'. compute t = Inr t')"
  proof
    assume "\<exists>t'. compute t = Inr t'"
    then obtain t' where "compute t = Inr t'" ..
    from compute_InrD [OF this] assms c show False
      by (auto simp add: compute_def bind_err_def getitem_def Let_def)
  qed
  ultimately show "compute t = Inl e" using c by simp
next
  fix s' assume c: "compute_partials s = Inr s'"
  from compute_partials_InrD [OF c] obtain a Area rho Vu where
    i: "inputs s ''a'' = Some a" "inputs s ''Area'' = Some Area"
       "inputs s ''rho'' = Some rho" "inputs s ''Vu'' = Some Vu" by blast
  then have j: "inputs t ''a'' = Some a" "inputs t ''Area'' = Some Area"
       "inputs t ''rho'' = Some rho" "inputs t ''Vu'' = Some Vu" using assms by simp_all
  note eq = c [unfolded compute_partials_Inr [OF i], simplified, symmetric]
  show "\<exists>t'. compute_partials t = Inr t' \<and> (\<forall>k \<in> set partial_names. J t' k = J s' k)"
    unfolding compute_partials_Inr [OF j] by (simp add: eq partial_names_def)
  have i': "inputs s' ''a'' = Some a" "inputs s' ''Area'' = Some Area"
       "inputs s' ''rho'' = Some rho" "inputs s' ''Vu'' = Some Vu" using i by (simp_all add: eq)
  show "compute_partials s' = Inr s'"
    unfolding compute_partials_Inr [OF i'] by (simp add: eq)
next
  fix e assume c: "compute_partials s = Inl e"
  from compute_partials_Inl [OF c] have e: "e = (if inputs s ''a'' = None then KeyError ''a''
              else if inputs s ''Vu'' = None then KeyError ''Vu''
              else if inputs s ''Area'' = None then KeyError ''Area''
              else KeyError ''rho'')" and m: "\<exists>k \<in> {''a'', ''Area'', ''rho'', ''Vu''}. inputs s k = None"
    by simp_all
  show "compute_partials t = Inl e"
    using assms m unfolding e
    by (auto simp add: compute_partials_def bind_err_def getitem_def Let_def split: option.splits)
qed


theorem evaluation_deterministic_witness:
  "(\<exists>s' t'. compute initial = Inr s'
       \<and> compute (initial\<lparr>outputs := Map.empty, J := [(''Cp'', ''a'') \<mapsto> 7]\<rparr>) = Inr t'
       \<and> outputs t' ''Cp'' = outputs s' ''Cp'' \<and> outputs t' ''power'' = outputs s' ''power''
       \<and> compute s' = Inr s')
 \<and> (\<exists>s' t'. compute_partials initial = Inr s'
       \<and> compute_partials (initial\<lparr>outputs := Map.empty, J := [(''Cp'', ''a'') \<mapsto> 7]\<rparr>) = Inr t'
       \<and> J t' (''Cp'', ''a'') = J s' (''Cp'', ''a'') \<and> compute_partials s' = Inr s')"
proof -
  let ?t = "initial\<lparr>outputs := Map.empty, J := [(''Cp'', ''a'') \<mapsto> 7]\<rparr>"
  have i: "inputs initial ''a'' = Some (1 / 2)" "inputs initial ''Area'' = Some 10"
    "inputs initial ''rho'' = Some (1225 / 1000)" "inputs initial ''Vu'' = Some 10"
    by (simp_all add: initial_def indeps_def)
  obtain s' where 1: "compute initial = Inr s'"
    using compute_Inr [OF i] by blast
  obtain s'' where 2: "compute_partials initial = Inr s''"
    using compute_partials_Inr [OF i] by blast
  have agree: "\<forall>k \<in> {''a'', ''Area'', ''rho'', ''Vu''}. inputs initial k = inputs ?t k"
    by simp
  note det = evaluation_deterministic [OF agree]
  from det 1 obtain t' where "compute ?t = Inr t'"
    and "\<forall>k \<in> set output_names. outputs t' k = outputs s' k" and "compute s' = Inr s'"
    by blast
  moreover from det 2 obtain t'' where "compute_partials ?t = Inr t''"
    and "\<forall>k \<in> set partial_names. J t'' k = J s'' k" and "compute_partials s'' = Inr s''"
    by blast
  ultimately show ?thesis using 1 2
    by (auto simp add: output_names_def partial_names_def)
qed

section \<open>Power, thrust and the velocity at the rotor\<close>

text \<open>
  Claim C8. For every quadruple of reals held by the inputs, the outputs of forward
  evaluation satisfy \<open>power = thrust * Vr\<close>.
\<close>

theorem power_is_thrust_times_Vr:
  assumes "inputs s ''a'' = Some a" and "inputs s ''Area'' = Some Area"
    and "inputs s ''rho'' = Some rho" and "inputs s ''Vu'' = Some Vu"
  shows "\<exists>s' power thrust Vr. compute s = Inr s'
         \<and> outputs s' ''power'' = Some power \<and> outputs s' ''thrust'' = Some thrust
         \<and> outputs s' ''Vr'' = Some Vr \<and> power = thrust * Vr"
proof -
  let ?thrust = "4 * a * (1 - a) * ((1 / 2) * rho * Area * Vu ^ 2)"
  let ?Vr = "(1 / 2) * (Vu + Vu * (1 - 2 * a))"
  let ?power = "4 * a * (1 - a) * (1 - a) * ((1 / 2) * rho * Area * Vu ^ 2) * Vu"
  obtain s' where c: "compute s = Inr s'"
    and "outputs s' ''power'' = Some ?power" and "outputs s' ''thrust'' = Some ?thrust"
    and "outputs s' ''Vr'' = Some ?Vr"
    using compute_Inr [OF assms] by simp
  moreover have "?power = ?thrust * ?Vr"
    by (simp add: algebra_simps)
  ultimately show ?thesis by blast
qed

theorem power_is_thrust_times_Vr_witness:
  "\<exists>s'. compute initial = Inr s' \<and> outputs s' ''power'' = Some (6125 / 2)
      \<and> outputs s' ''thrust'' = Some (1225 / 2) \<and> outputs s' ''Vr'' = Some 5
      \<and> (6125 / 2 :: real) = (1225 / 2) * 5"
proof -
  have i: "inputs initial ''a'' = Some (1 / 2)" "inputs initial ''Area'' = Some 10"
    "inputs initial ''rho'' = Some (1225 / 1000)" "inputs initial ''Vu'' = Some 10"
    by (simp_all add: initial_def indeps_def)
  from power_is_thrust_times_Vr [OF i] obtain s' p th vr where "compute initial = Inr s'"
    and "outputs s' ''power'' = Some p" and "outputs s' ''thrust'' = Some th"
    and "outputs s' ''Vr'' = Some vr" and "p = th * vr" by blast
  then show ?thesis using compute_Inr [OF i] by auto
qed

section \<open>The Betz limit\<close>

text \<open>
  Claim C9. For every quadruple of reals held by the inputs, forward evaluation succeeds
  and the \<^verbatim>\<open>Cp\<close> it writes is \<open>4 a (1 - a)\<^sup>2\<close>; for every \<open>a\<close> in the
  interval from 0 to 1 it is at most \<open>16/27\<close>, and it equals \<open>16/27\<close> exactly when
  \<open>a = 1/3\<close>.
\<close>

theorem Cp_betz_limit:
  assumes "inputs s ''a'' = Some a" and "inputs s ''Area'' = Some Area"
    and "inputs s ''rho'' = Some rho" and "inputs s ''Vu'' = Some Vu"
  shows "\<exists>s'. compute s = Inr s'
         \<and> outputs s' ''Cp'' = Some (4 * a * (1 - a) ^ 2)
         \<and> (0 \<le> a \<and> a \<le> 1 \<longrightarrow>
              (\<exists>Cp. outputs s' ''Cp'' = Some Cp \<and> Cp \<le> 16 / 27
                  \<and> (Cp = 16 / 27 \<longleftrightarrow> a = 1 / 3)))"
proof -
  obtain s' where c: "compute s = Inr s'"
    and v: "outputs s' ''Cp'' = Some (4 * a * (1 - a) * (1 - a))"
    using compute_Inr [OF assms] by simp
  have "outputs s' ''Cp'' = Some (4 * a * (1 - a) ^ 2)"
    using v by (simp add: power2_eq_square)
  then show ?thesis using c betz_bound [of a] by blast
qed

theorem Cp_betz_limit_witness:
  "(0 :: real) \<le> 1 / 3 \<and> (1 / 3 :: real) \<le> 1
 \<and> (\<exists>s'. compute (initial\<lparr>inputs := indeps(''a'' \<mapsto> 1 / 3)\<rparr>) = Inr s'
        \<and> outputs s' ''Cp'' = Some (16 / 27))"
proof -
  let ?s = "initial\<lparr>inputs := indeps(''a'' \<mapsto> 1 / 3)\<rparr>"
  have i: "inputs ?s ''a'' = Some (1 / 3)" "inputs ?s ''Area'' = Some 10"
    "inputs ?s ''rho'' = Some (1225 / 1000)" "inputs ?s ''Vu'' = Some 10"
    by (simp_all add: initial_def indeps_def)
  have r: "(0 :: real) \<le> 1 / 3 \<and> (1 / 3 :: real) \<le> 1" by simp
  from Cp_betz_limit [OF i] r
  obtain s' Cp where c: "compute ?s = Inr s'" and "outputs s' ''Cp'' = Some Cp"
    and "Cp = 16 / 27 \<longleftrightarrow> (1 / 3 :: real) = 1 / 3"
    by blast
  then have "outputs s' ''Cp'' = Some (16 / 27)" by simp
  with c r show ?thesis by blast
qed

section \<open>What the coefficients depend on\<close>

text \<open>
  Claim C10. Two forward evaluations whose inputs agree on \<^verbatim>\<open>a\<close> write the same
  \<^verbatim>\<open>Ct\<close> and the same \<^verbatim>\<open>Cp\<close>, however \<^verbatim>\<open>Area\<close>,
  \<^verbatim>\<open>rho\<close> and \<^verbatim>\<open>Vu\<close> differ; so the objective does not depend on the
  design variable \<^verbatim>\<open>Area\<close>, whose initial value 10 lies outside its declared
  bounds 0 and 1.
\<close>

theorem Ct_Cp_depend_only_on_a:
  assumes "inputs s ''a'' = inputs t ''a''" and "compute s = Inr s'" and "compute t = Inr t'"
  shows "outputs s' ''Ct'' = outputs t' ''Ct'' \<and> outputs s' ''Cp'' = outputs t' ''Cp''
       \<and> indeps ''Area'' = Some 10 \<and> \<not> within_bounds ''Area'' 10"
proof -
  from compute_InrD [OF assms(2)] obtain a Area rho Vu where
    i: "inputs s ''a'' = Some a" "inputs s ''Area'' = Some Area"
       "inputs s ''rho'' = Some rho" "inputs s ''Vu'' = Some Vu" by blast
  from compute_InrD [OF assms(3)] assms(1) i(1) obtain Area' rho' Vu' where
    j: "inputs t ''a'' = Some a" "inputs t ''Area'' = Some Area'"
       "inputs t ''rho'' = Some rho'" "inputs t ''Vu'' = Some Vu'" by auto
  note eqs = assms(2) [unfolded compute_Inr [OF i], simplified, symmetric]
  note eqt = assms(3) [unfolded compute_Inr [OF j], simplified, symmetric]
  have "outputs s' ''Ct'' = outputs t' ''Ct''" and "outputs s' ''Cp'' = outputs t' ''Cp''"
    by (simp_all add: eqs eqt)
  moreover have "indeps ''Area'' = Some 10" by (simp add: indeps_def)
  moreover have "\<not> within_bounds ''Area'' 10"
    by (simp add: within_bounds_def design_vars_def)
  ultimately show ?thesis by blast
qed

theorem Ct_Cp_depend_only_on_a_witness:
  "\<exists>s' t'. compute initial = Inr s'
      \<and> compute (initial\<lparr>inputs := [''a'' \<mapsto> 1 / 2, ''Area'' \<mapsto> 1, ''rho'' \<mapsto> 2, ''Vu'' \<mapsto> 3]\<rparr>) = Inr t'
      \<and> outputs s' ''Ct'' = outputs t' ''Ct'' \<and> outputs s' ''Cp'' = outputs t' ''Cp''
      \<and> outputs s' ''power'' \<noteq> outputs t' ''power''"
proof -
  let ?t = "initial\<lparr>inputs := [''a'' \<mapsto> 1 / 2, ''Area'' \<mapsto> 1, ''rho'' \<mapsto> 2, ''Vu'' \<mapsto> 3]\<rparr>"
  have i: "inputs initial ''a'' = Some (1 / 2)" "inputs initial ''Area'' = Some 10"
    "inputs initial ''rho'' = Some (1225 / 1000)" "inputs initial ''Vu'' = Some 10"
    by (simp_all add: initial_def indeps_def)
  have j: "inputs ?t ''a'' = Some (1 / 2)" "inputs ?t ''Area'' = Some 1"
    "inputs ?t ''rho'' = Some 2" "inputs ?t ''Vu'' = Some 3"
    by simp_all
  obtain s' where 1: "compute initial = Inr s'" and p1: "outputs s' ''power'' = Some (6125 / 2)"
    using compute_Inr [OF i] by simp
  obtain t' where 2: "compute ?t = Inr t'" and p2: "outputs t' ''power'' = Some (27 / 2)"
    using compute_Inr [OF j] by simp
  have "inputs initial ''a'' = inputs ?t ''a''" using i j by simp
  from Ct_Cp_depend_only_on_a [OF this 1 2] 1 2 p1 p2 show ?thesis by auto
qed

end
